theory Spec2Isabelle
  imports Main "HOL-Library.Word"
begin

section \<open>TinyLocket: vault, session guard and request broker\<close>

text \<open>
  A shallow embedding of the extension's services (\<^verbatim>\<open>CryptoService\<close>,
  \<^verbatim>\<open>StorageService\<close>, \<^verbatim>\<open>VaultService\<close>, \<^verbatim>\<open>SessionService\<close>), of the
  background message handler and of the streaming proxy. Every service method becomes a
  function from the state of the extension to a result and the new state. A thrown
  \<^verbatim>\<open>Error(msg)\<close> is the result \<open>Inl msg\<close>. Values that the environment supplies
  during a call (the bytes drawn by \<^verbatim>\<open>randomBytes\<close>, the readings of
  \<^verbatim>\<open>Date.now()\<close>, a fresh uuid, the answer of the network) are explicit arguments.
  JavaScript numbers are modelled as integers, and an \<^verbatim>\<open>await\<close> completes before
  the next statement runs (no interleaving of concurrent calls).
\<close>

subsection \<open>Data model (shared/types)\<close>

type_synonym bytes = "8 word list"

type_synonym LlmProvider = string

record ProviderConfig =
  pc_id :: LlmProvider
  pc_name :: string
  baseUrl :: string
  authHeader :: string
  authPrefix :: string
  testEndpoint :: string
  requiresEndpointUrl :: bool

definition PROVIDERS :: "ProviderConfig list" where
  "PROVIDERS =
    [\<lparr>pc_id = ''openai'', pc_name = ''OpenAI'', baseUrl = ''https://api.openai.com'',
       authHeader = ''Authorization'', authPrefix = ''Bearer '', testEndpoint = ''/v1/models'',
       requiresEndpointUrl = False\<rparr>,
     \<lparr>pc_id = ''anthropic'', pc_name = ''Anthropic'', baseUrl = ''https://api.anthropic.com'',
       authHeader = ''x-api-key'', authPrefix = '''', testEndpoint = ''/v1/messages'',
       requiresEndpointUrl = False\<rparr>,
     \<lparr>pc_id = ''gemini'', pc_name = ''Google Gemini'',
       baseUrl = ''https://generativelanguage.googleapis.com'',
       authHeader = ''x-goog-api-key'', authPrefix = '''', testEndpoint = ''/v1/models'',
       requiresEndpointUrl = False\<rparr>,
     \<lparr>pc_id = ''mistral'', pc_name = ''Mistral AI'', baseUrl = ''https://api.mistral.ai'',
       authHeader = ''Authorization'', authPrefix = ''Bearer '', testEndpoint = ''/v1/models'',
       requiresEndpointUrl = False\<rparr>,
     \<lparr>pc_id = ''cohere'', pc_name = ''Cohere'', baseUrl = ''https://api.cohere.ai'',
       authHeader = ''Authorization'', authPrefix = ''Bearer '', testEndpoint = ''/v1/models'',
       requiresEndpointUrl = False\<rparr>,
     \<lparr>pc_id = ''groq'', pc_name = ''Groq'', baseUrl = ''https://api.groq.com/openai'',
       authHeader = ''Authorization'', authPrefix = ''Bearer '', testEndpoint = ''/v1/models'',
       requiresEndpointUrl = False\<rparr>,
     \<lparr>pc_id = ''xai'', pc_name = ''xAI (Grok)'', baseUrl = ''https://api.x.ai'',
       authHeader = ''Authorization'', authPrefix = ''Bearer '', testEndpoint = ''/v1/models'',
       requiresEndpointUrl = False\<rparr>,
     \<lparr>pc_id = ''deepseek'', pc_name = ''DeepSeek'', baseUrl = ''https://api.deepseek.com'',
       authHeader = ''Authorization'', authPrefix = ''Bearer '', testEndpoint = ''/v1/models'',
       requiresEndpointUrl = False\<rparr>,
     \<lparr>pc_id = ''perplexity'', pc_name = ''Perplexity'', baseUrl = ''https://api.perplexity.ai'',
       authHeader = ''Authorization'', authPrefix = ''Bearer '',
       testEndpoint = ''/chat/completions'', requiresEndpointUrl = False\<rparr>,
     \<lparr>pc_id = ''together'', pc_name = ''Together AI'', baseUrl = ''https://api.together.xyz'',
       authHeader = ''Authorization'', authPrefix = ''Bearer '', testEndpoint = ''/v1/models'',
       requiresEndpointUrl = False\<rparr>,
     \<lparr>pc_id = ''lm_studio'', pc_name = ''LM Studio / Custom'', baseUrl = '''',
       authHeader = ''Authorization'', authPrefix = ''Bearer '', testEndpoint = ''/v1/models'',
       requiresEndpointUrl = True\<rparr>]"

text \<open>
  \<^verbatim>\<open>LlmProvider\<close> is a union of string literals that is not checked at run time: a
  message may carry any string, so provider ids are strings here.
\<close>

definition getProviderById :: "LlmProvider \<Rightarrow> ProviderConfig option" where
  "getProviderById i = find (\<lambda>p. pc_id p = i) PROVIDERS"

record VaultData =
  encrypted :: string
  salt :: string
  iv :: string
  v_createdAt :: int
  v_updatedAt :: int

record ApiKeyEntry =
  key_id :: string
  provider :: LlmProvider
  key_name :: string
  apiKey :: string
  endpointUrl :: "string option"
  createdAt :: int
  updatedAt :: int

record WhitelistedDomain =
  domain :: string
  addedAt :: int

record RequestHistoryEntry =
  h_id :: string
  h_timestamp :: int
  h_provider :: LlmProvider
  h_endpoint :: string
  h_domain :: string
  h_status :: int
  h_durationMs :: int

record ExtensionSettings =
  autoLockMinutes :: int
  historyEnabled :: bool
  maxHistoryEntries :: int

record StoredData =
  sd_vault :: "VaultData option"
  sd_whitelistedDomains :: "WhitelistedDomain list"
  sd_requestHistory :: "RequestHistoryEntry list"
  sd_settings :: ExtensionSettings
  sd_customEndpoints :: "string \<rightharpoonup> string"

definition DEFAULT_SETTINGS :: ExtensionSettings where
  "DEFAULT_SETTINGS = \<lparr>autoLockMinutes = 30, historyEnabled = True, maxHistoryEntries = 1000\<rparr>"

datatype TinylocketErrorCode =
  NOT_INSTALLED | CONNECTION_REFUSED | LOCKED | DOMAIN_NOT_ALLOWED | NO_KEY | TIMEOUT
  | NETWORK_ERROR | INVALID_REQUEST

subsection \<open>Constants (shared/constants.ts)\<close>

definition PBKDF2_ITERATIONS :: nat where
  "PBKDF2_ITERATIONS = 310000"

definition SALT_LENGTH :: nat where
  "SALT_LENGTH = 16"

definition KEY_LENGTH :: nat where
  "KEY_LENGTH = 32"

subsection \<open>The platform\<close>

text \<open>
  The libraries and browser built-ins that the services call are not code of the
  extension. They are the fields of a record that every function takes as its first
  argument: \<^verbatim>\<open>pbkdf2(sha256, password, salt, {c, dkLen})\<close>,
  \<^verbatim>\<open>gcm(key, iv).encrypt\<close> and \<^verbatim>\<open>.decrypt\<close> (\<open>None\<close> when the tag does
  not verify and the call throws), \<^verbatim>\<open>TextEncoder\<close> and \<^verbatim>\<open>TextDecoder\<close>,
  \<^verbatim>\<open>btoa\<close> and \<^verbatim>\<open>atob\<close> (\<open>None\<close> when the input is not base64),
  \<^verbatim>\<open>JSON.stringify\<close> and \<^verbatim>\<open>JSON.parse\<close> on the credential list (\<open>None\<close>
  on a syntax error), and \<^verbatim>\<open>new URL(origin).hostname\<close> (\<open>None\<close> when the
  constructor throws).
\<close>

record platform =
  pbkdf2 :: "string \<Rightarrow> bytes \<Rightarrow> nat \<Rightarrow> nat \<Rightarrow> bytes"
  gcm_encrypt :: "bytes \<Rightarrow> bytes \<Rightarrow> bytes \<Rightarrow> bytes"
  gcm_decrypt :: "bytes \<Rightarrow> bytes \<Rightarrow> bytes \<Rightarrow> bytes option"
  text_encode :: "string \<Rightarrow> bytes"
  text_decode :: "bytes \<Rightarrow> string"
  btoa :: "string \<Rightarrow> string"
  atob :: "string \<Rightarrow> string option"
  json_stringify :: "ApiKeyEntry list \<Rightarrow> string"
  json_parse :: "string \<Rightarrow> ApiKeyEntry list option"
  url_hostname :: "string \<Rightarrow> string option"

subsection \<open>CryptoService\<close>

text \<open>
  \<open>deriveKey\<close>: \<open>fresh\<close> is what \<^verbatim>\<open>randomBytes(SALT_LENGTH)\<close> returns in this
  call; it is used only when no salt is passed. The result is the pair (key, salt).
\<close>

definition deriveKey :: "platform \<Rightarrow> bytes \<Rightarrow> string \<Rightarrow> bytes option \<Rightarrow> bytes \<times> bytes" where
  "deriveKey P fresh password salt_opt =
     (let saltBytes = (case salt_opt of Some s \<Rightarrow> s | None \<Rightarrow> fresh);
          key = pbkdf2 P password saltBytes PBKDF2_ITERATIONS KEY_LENGTH
      in (key, saltBytes))"

text \<open>
  \<open>encrypt\<close>: \<open>fresh\<close> is what \<^verbatim>\<open>randomBytes(12)\<close> returns in this call. The
  result is the pair (ciphertext, iv).
\<close>

definition encrypt :: "platform \<Rightarrow> bytes \<Rightarrow> string \<Rightarrow> bytes \<Rightarrow> bytes \<times> bytes" where
  "encrypt P fresh data key =
     (let iv_bytes = fresh;
          plaintext = text_encode P data;
          ciphertext = gcm_encrypt P key iv_bytes plaintext
      in (ciphertext, iv_bytes))"

text \<open>\<open>decrypt\<close> is \<open>None\<close> when \<^verbatim>\<open>cipher.decrypt\<close> throws.\<close>

definition decrypt :: "platform \<Rightarrow> bytes \<Rightarrow> bytes \<Rightarrow> bytes \<Rightarrow> string option" where
  "decrypt P ciphertext key iv_bytes =
     (case gcm_decrypt P key iv_bytes ciphertext of
        None \<Rightarrow> None
      | Some plaintext \<Rightarrow> Some (text_decode P plaintext))"

text \<open>
  \<^verbatim>\<open>String.fromCharCode(...data)\<close> makes one character of each byte, and the loop
  of \<open>fromBase64\<close> reads the character codes back into a byte array.
\<close>

definition toBase64 :: "platform \<Rightarrow> bytes \<Rightarrow> string" where
  "toBase64 P data = btoa P (map (\<lambda>b. char_of (unat b)) data)"

definition fromBase64 :: "platform \<Rightarrow> string \<Rightarrow> bytes option" where
  "fromBase64 P base64 =
     (case atob P base64 of
        None \<Rightarrow> None
      | Some binary \<Rightarrow> Some (map (\<lambda>c. of_char c) binary))"

definition zeroMemory :: "bytes \<Rightarrow> bytes" where
  "zeroMemory data = map (\<lambda>_. 0) data"

subsection \<open>The state of the extension\<close>

text \<open>
  \<open>chrome_local\<close> is the content of \<^verbatim>\<open>chrome.storage.local\<close>: each key is absent
  or holds a value. \<open>writes\<close> is the trace of the calls of
  \<^verbatim>\<open>chrome.storage.local.set\<close> and \<^verbatim>\<open>clear\<close>, oldest first.
\<close>

record chrome_local =
  cl_vault :: "VaultData option"
  cl_whitelistedDomains :: "WhitelistedDomain list option"
  cl_requestHistory :: "RequestHistoryEntry list option"
  cl_settings :: "ExtensionSettings option"
  cl_customEndpoints :: "(string \<rightharpoonup> string) option"

datatype storage_write =
  SetVault VaultData
  | SetWhitelistedDomains "WhitelistedDomain list"
  | SetRequestHistory "RequestHistoryEntry list"
  | SetSettings ExtensionSettings
  | SetCustomEndpoints "string \<rightharpoonup> string"
  | ClearAll

text \<open>A message passed to \<^verbatim>\<open>chrome.tabs.sendMessage\<close> by the streaming proxy.\<close>

record stream_chunk =
  sc_type :: string
  sc_requestId :: string
  sc_chunk :: string
  sc_done :: bool

text \<open>
  The \<^verbatim>\<open>Uint8Array\<close>s that have been held in \<^verbatim>\<open>VaultService.encryptionKey\<close>
  live in \<open>buffers\<close>; the field itself is a reference (an index into \<open>buffers\<close>) or
  null. \<open>alarm\<close> is the pending \<^verbatim>\<open>tinylocket-auto-lock\<close> alarm, as its
  \<^verbatim>\<open>delayInMinutes\<close>. \<open>runtime_messages\<close> are the message types passed to
  \<^verbatim>\<open>chrome.runtime.sendMessage\<close>; \<open>tabs\<close> are the \<^verbatim>\<open>id\<close>s of the open tabs
  and \<open>tab_messages\<close> the calls of \<^verbatim>\<open>chrome.tabs.sendMessage\<close>, oldest first.
\<close>

record world =
  local_storage :: chrome_local
  writes :: "storage_write list"
  cache :: "StoredData option"
  buffers :: "bytes list"
  decryptedKeys :: "ApiKeyEntry list option"
  encryptionKey :: "nat option"
  lastActivity :: int
  alarm :: "int option"
  runtime_messages :: "string list"
  tabs :: "nat option list"
  tab_messages :: "(nat \<times> stream_chunk) list"

subsection \<open>StorageService\<close>

definition getAll :: "world \<Rightarrow> StoredData \<times> world" where
  "getAll w =
     (case cache w of
        Some c \<Rightarrow> (c, w)
      | None \<Rightarrow>
          (let result = local_storage w;
               data = \<lparr>sd_vault = cl_vault result,
                       sd_whitelistedDomains =
                         (case cl_whitelistedDomains result of Some d \<Rightarrow> d | None \<Rightarrow> []),
                       sd_requestHistory =
                         (case cl_requestHistory result of Some h \<Rightarrow> h | None \<Rightarrow> []),
                       sd_settings =
                         (case cl_settings result of Some s \<Rightarrow> s | None \<Rightarrow> DEFAULT_SETTINGS),
                       sd_customEndpoints =
                         (case cl_customEndpoints result of Some e \<Rightarrow> e | None \<Rightarrow> Map.empty)\<rparr>
           in (data, w\<lparr>cache := Some data\<rparr>)))"

definition getVault :: "world \<Rightarrow> VaultData option \<times> world" where
  "getVault w = (let (data, w1) = getAll w in (sd_vault data, w1))"

text \<open>\<open>StorageService.saveVault\<close>: one \<^verbatim>\<open>set({ vault })\<close>, then the cache.\<close>

definition storage_saveVault :: "VaultData \<Rightarrow> world \<Rightarrow> world" where
  "storage_saveVault vault w =
     w\<lparr>local_storage := (local_storage w)\<lparr>cl_vault := Some vault\<rparr>,
       writes := writes w @ [SetVault vault],
       cache := (case cache w of
                   Some c \<Rightarrow> Some (c\<lparr>sd_vault := Some vault\<rparr>)
                 | None \<Rightarrow> None)\<rparr>"

definition getWhitelistedDomains :: "world \<Rightarrow> WhitelistedDomain list \<times> world" where
  "getWhitelistedDomains w = (let (data, w1) = getAll w in (sd_whitelistedDomains data, w1))"

definition addWhitelistedDomain :: "int \<Rightarrow> string \<Rightarrow> world \<Rightarrow> world" where
  "addWhitelistedDomain now d w =
     (let (domains, w1) = getWhitelistedDomains w
      in case find (\<lambda>x. domain x = d) domains of
           Some existing \<Rightarrow> w1
         | None \<Rightarrow>
             (let newDomains = domains @ [\<lparr>domain = d, addedAt = now\<rparr>]
              in w1\<lparr>local_storage := (local_storage w1)\<lparr>cl_whitelistedDomains := Some newDomains\<rparr>,
                    writes := writes w1 @ [SetWhitelistedDomains newDomains],
                    cache := (case cache w1 of
                                Some c \<Rightarrow> Some (c\<lparr>sd_whitelistedDomains := newDomains\<rparr>)
                              | None \<Rightarrow> None)\<rparr>))"

definition removeWhitelistedDomain :: "string \<Rightarrow> world \<Rightarrow> world" where
  "removeWhitelistedDomain d w =
     (let (domains, w1) = getWhitelistedDomains w;
          newDomains = filter (\<lambda>x. domain x \<noteq> d) domains
      in w1\<lparr>local_storage := (local_storage w1)\<lparr>cl_whitelistedDomains := Some newDomains\<rparr>,
            writes := writes w1 @ [SetWhitelistedDomains newDomains],
            cache := (case cache w1 of
                        Some c \<Rightarrow> Some (c\<lparr>sd_whitelistedDomains := newDomains\<rparr>)
                      | None \<Rightarrow> None)\<rparr>)"

definition isDomainWhitelisted :: "string \<Rightarrow> world \<Rightarrow> bool \<times> world" where
  "isDomainWhitelisted d w =
     (let (domains, w1) = getWhitelistedDomains w
      in (list_ex (\<lambda>x. domain x = d) domains, w1))"

definition getRequestHistory :: "world \<Rightarrow> RequestHistoryEntry list \<times> world" where
  "getRequestHistory w = (let (data, w1) = getAll w in (sd_requestHistory data, w1))"

text \<open>
  \<^verbatim>\<open>Array.prototype.slice(start)\<close> with one argument: a negative \<open>start\<close> counts
  from the end and is clamped at the beginning of the array; \<^verbatim>\<open>-0\<close> is \<open>0\<close>.
\<close>

definition js_slice :: "int \<Rightarrow> 'a list \<Rightarrow> 'a list" where
  "js_slice start xs =
     (let len = int (length xs);
          k = (if start < 0 then max (len + start) 0 else min start len)
      in drop (nat k) xs)"

definition addRequestHistory :: "RequestHistoryEntry \<Rightarrow> world \<Rightarrow> world" where
  "addRequestHistory entry w =
     (let (data, w1) = getAll w
      in if \<not> historyEnabled (sd_settings data) then w1
         else
           (let history0 = sd_requestHistory data @ [entry];
                history =
                  (if int (length history0) > maxHistoryEntries (sd_settings data)
                   then js_slice (- maxHistoryEntries (sd_settings data)) history0
                   else history0)
            in w1\<lparr>local_storage := (local_storage w1)\<lparr>cl_requestHistory := Some history\<rparr>,
                  writes := writes w1 @ [SetRequestHistory history],
                  cache := (case cache w1 of
                              Some c \<Rightarrow> Some (c\<lparr>sd_requestHistory := history\<rparr>)
                            | None \<Rightarrow> None)\<rparr>))"

definition clearRequestHistory :: "world \<Rightarrow> world" where
  "clearRequestHistory w =
     w\<lparr>local_storage := (local_storage w)\<lparr>cl_requestHistory := Some []\<rparr>,
       writes := writes w @ [SetRequestHistory []],
       cache := (case cache w of
                   Some c \<Rightarrow> Some (c\<lparr>sd_requestHistory := []\<rparr>)
                 | None \<Rightarrow> None)\<rparr>"

definition getSettings :: "world \<Rightarrow> ExtensionSettings \<times> world" where
  "getSettings w = (let (data, w1) = getAll w in (sd_settings data, w1))"

text \<open>
  \<open>updateSettings\<close> takes a \<^verbatim>\<open>Partial<ExtensionSettings>\<close>: each field is present
  (\<open>Some\<close>) or left out.
\<close>

record settings_update =
  su_autoLockMinutes :: "int option"
  su_historyEnabled :: "bool option"
  su_maxHistoryEntries :: "int option"

definition updateSettings :: "settings_update \<Rightarrow> world \<Rightarrow> world" where
  "updateSettings u w =
     (let (current, w1) = getSettings w;
          newSettings =
            \<lparr>autoLockMinutes =
               (case su_autoLockMinutes u of Some m \<Rightarrow> m | None \<Rightarrow> autoLockMinutes current),
             historyEnabled =
               (case su_historyEnabled u of Some b \<Rightarrow> b | None \<Rightarrow> historyEnabled current),
             maxHistoryEntries =
               (case su_maxHistoryEntries u of Some m \<Rightarrow> m | None \<Rightarrow> maxHistoryEntries current)\<rparr>
      in w1\<lparr>local_storage := (local_storage w1)\<lparr>cl_settings := Some newSettings\<rparr>,
            writes := writes w1 @ [SetSettings newSettings],
            cache := (case cache w1 of
                        Some c \<Rightarrow> Some (c\<lparr>sd_settings := newSettings\<rparr>)
                      | None \<Rightarrow> None)\<rparr>)"

definition getCustomEndpoints :: "world \<Rightarrow> (string \<rightharpoonup> string) \<times> world" where
  "getCustomEndpoints w = (let (data, w1) = getAll w in (sd_customEndpoints data, w1))"

definition saveCustomEndpoint :: "string \<Rightarrow> string \<Rightarrow> world \<Rightarrow> world" where
  "saveCustomEndpoint keyId url w =
     (let (endpoints, w1) = getCustomEndpoints w;
          newEndpoints = endpoints(keyId \<mapsto> url)
      in w1\<lparr>local_storage := (local_storage w1)\<lparr>cl_customEndpoints := Some newEndpoints\<rparr>,
            writes := writes w1 @ [SetCustomEndpoints newEndpoints],
            cache := (case cache w1 of
                        Some c \<Rightarrow> Some (c\<lparr>sd_customEndpoints := newEndpoints\<rparr>)
                      | None \<Rightarrow> None)\<rparr>)"

definition clearCache :: "world \<Rightarrow> world" where
  "clearCache w = w\<lparr>cache := None\<rparr>"

definition hasVault :: "world \<Rightarrow> bool \<times> world" where
  "hasVault w = (let (vault, w1) = getVault w in (vault \<noteq> None, w1))"

definition clearAll :: "world \<Rightarrow> world" where
  "clearAll w =
     w\<lparr>local_storage := \<lparr>cl_vault = None, cl_whitelistedDomains = None,
                          cl_requestHistory = None, cl_settings = None,
                          cl_customEndpoints = None\<rparr>,
       writes := writes w @ [ClearAll],
       cache := None\<rparr>"

subsection \<open>VaultService\<close>

definition isUnlocked :: "world \<Rightarrow> bool" where
  "isUnlocked w = (decryptedKeys w \<noteq> None \<and> encryptionKey w \<noteq> None)"

definition vault_exists :: "world \<Rightarrow> bool \<times> world" where
  "vault_exists w = hasVault w"

text \<open>
  The assignment \<^verbatim>\<open>this.encryptionKey = key\<close> of a key array that was just
  derived: the array is a new buffer, and the field refers to it.
\<close>

definition hold_key :: "bytes \<Rightarrow> world \<Rightarrow> world" where
  "hold_key key w = w\<lparr>buffers := buffers w @ [key], encryptionKey := Some (length (buffers w))\<rparr>"

text \<open>\<^verbatim>\<open>cryptoService.zeroMemory(this.encryptionKey)\<close> on the buffer at \<open>a\<close>.\<close>

definition zero_buffer :: "nat \<Rightarrow> world \<Rightarrow> world" where
  "zero_buffer a w = w\<lparr>buffers := (buffers w)[a := zeroMemory (buffers w ! a)]\<rparr>"

definition create :: "platform \<Rightarrow> bytes \<Rightarrow> bytes \<Rightarrow> int \<Rightarrow> int \<Rightarrow> string \<Rightarrow> world
    \<Rightarrow> (string + unit) \<times> world" where
  "create P fresh_salt fresh_iv now1 now2 password w =
     (let (ex, w1) = vault_exists w
      in if ex then (Inl ''Vault already exists'', w1)
         else
           (let (key, saltBytes) = deriveKey P fresh_salt password None;
                emptyKeys = [];
                data = json_stringify P emptyKeys;
                (ciphertext, ivBytes) = encrypt P fresh_iv data key;
                vault = \<lparr>encrypted = toBase64 P ciphertext, salt = toBase64 P saltBytes,
                         iv = toBase64 P ivBytes, v_createdAt = now1, v_updatedAt = now2\<rparr>;
                w2 = storage_saveVault vault w1
            in (Inr (), (hold_key key w2)\<lparr>decryptedKeys := Some emptyKeys\<rparr>)))"

text \<open>
  The statements that open the \<^verbatim>\<open>try\<close> blocks of \<open>unlock\<close> and of
  \<open>changePassword\<close>, which are the same in both: decode the salt, derive the key
  (no random bytes are drawn, the salt is given), decode ciphertext and iv, decrypt,
  parse. \<open>None\<close> when one of them throws, else the key and the credential list.
\<close>

definition try_open :: "platform \<Rightarrow> string \<Rightarrow> VaultData \<Rightarrow> (bytes \<times> ApiKeyEntry list) option" where
  "try_open P password vault =
     (case fromBase64 P (salt vault) of
        None \<Rightarrow> None
      | Some saltBytes \<Rightarrow>
          (let (key, _) = deriveKey P [] password (Some saltBytes)
           in case fromBase64 P (encrypted vault) of
                None \<Rightarrow> None
              | Some ciphertext \<Rightarrow>
                  (case fromBase64 P (iv vault) of
                     None \<Rightarrow> None
                   | Some ivBytes \<Rightarrow>
                       (case decrypt P ciphertext key ivBytes of
                          None \<Rightarrow> None
                        | Some decrypted \<Rightarrow>
                            (case json_parse P decrypted of
                               None \<Rightarrow> None
                             | Some keys \<Rightarrow> Some (key, keys))))))"

definition unlock :: "platform \<Rightarrow> string \<Rightarrow> world \<Rightarrow> (string + bool) \<times> world" where
  "unlock P password w =
     (let (vault_opt, w1) = getVault w
      in case vault_opt of
           None \<Rightarrow> (Inl ''Vault does not exist'', w1)
         | Some vault \<Rightarrow>
             (case try_open P password vault of
                Some (key, keys) \<Rightarrow> (Inr True, (hold_key key w1)\<lparr>decryptedKeys := Some keys\<rparr>)
              | None \<Rightarrow> (Inr False, w1)))"

definition lock :: "world \<Rightarrow> world" where
  "lock w =
     (let w1 = (case encryptionKey w of
                  Some a \<Rightarrow> (zero_buffer a w)\<lparr>encryptionKey := None\<rparr>
                | None \<Rightarrow> w)
      in w1\<lparr>decryptedKeys := None\<rparr>)"

definition getKeys :: "world \<Rightarrow> string + ApiKeyEntry list" where
  "getKeys w =
     (if \<not> isUnlocked w then Inl ''Vault is locked''
      else case decryptedKeys w of
             Some keys \<Rightarrow> Inr keys
           | None \<Rightarrow> Inl ''Vault is locked'')"

definition getKeyForProvider :: "LlmProvider \<Rightarrow> world \<Rightarrow> string + ApiKeyEntry option" where
  "getKeyForProvider p w =
     (if \<not> isUnlocked w then Inl ''Vault is locked''
      else case decryptedKeys w of
             Some keys \<Rightarrow> Inr (find (\<lambda>k. provider k = p) keys)
           | None \<Rightarrow> Inl ''Vault is locked'')"

text \<open>
  The private \<open>VaultService.saveVault\<close>: encrypt the list under the held key, read
  the stored record, and write it back with the new ciphertext, iv and
  \<^verbatim>\<open>updatedAt\<close>; the other fields are those of the record just read.
\<close>

definition vault_saveVault :: "platform \<Rightarrow> bytes \<Rightarrow> int \<Rightarrow> world \<Rightarrow> (string + unit) \<times> world" where
  "vault_saveVault P fresh_iv now w =
     (if \<not> isUnlocked w then (Inl ''Vault is locked'', w)
      else case (decryptedKeys w, encryptionKey w) of
             (Some keys, Some a) \<Rightarrow>
               (let data = json_stringify P keys;
                    (ciphertext, ivBytes) = encrypt P fresh_iv data (buffers w ! a);
                    (vault_opt, w1) = getVault w
                in case vault_opt of
                     None \<Rightarrow> (Inl ''Vault does not exist'', w1)
                   | Some vault \<Rightarrow>
                       (let updatedVault =
                              vault\<lparr>encrypted := toBase64 P ciphertext,
                                    iv := toBase64 P ivBytes,
                                    v_updatedAt := now\<rparr>
                        in (Inr (), storage_saveVault updatedVault w1)))
           | _ \<Rightarrow> (Inl ''Vault is locked'', w))"

text \<open>A JavaScript string is truthy when it is present and not empty.\<close>

definition truthy :: "string option \<Rightarrow> bool" where
  "truthy s = (case s of None \<Rightarrow> False | Some t \<Rightarrow> t \<noteq> [])"

text \<open>
  \<open>addKey\<close>: \<open>uuid\<close> is the id drawn by \<^verbatim>\<open>uuidv4()\<close>, \<open>now1\<close> and \<open>now2\<close> the
  two readings of the clock for the entry, \<open>now3\<close> the one of \<open>saveVault\<close>.
\<close>

definition addKey :: "platform \<Rightarrow> bytes \<Rightarrow> string \<Rightarrow> int \<Rightarrow> int \<Rightarrow> int \<Rightarrow> LlmProvider \<Rightarrow> string
    \<Rightarrow> string \<Rightarrow> string option \<Rightarrow> world \<Rightarrow> (string + ApiKeyEntry) \<times> world" where
  "addKey P fresh_iv uuid now1 now2 now3 prov name secret url w =
     (if \<not> isUnlocked w then (Inl ''Vault is locked'', w)
      else
        (let entry = \<lparr>key_id = uuid, provider = prov, key_name = name, apiKey = secret,
                      endpointUrl = url, createdAt = now1, updatedAt = now2\<rparr>;
             w1 = w\<lparr>decryptedKeys := map_option (\<lambda>keys. keys @ [entry]) (decryptedKeys w)\<rparr>;
             (r, w2) = vault_saveVault P fresh_iv now3 w1
         in case r of
              Inl e \<Rightarrow> (Inl e, w2)
            | Inr _ \<Rightarrow>
                (if truthy url \<and> prov = ''lm_studio''
                 then (Inr entry, saveCustomEndpoint uuid (case url of Some u \<Rightarrow> u | None \<Rightarrow> []) w2)
                 else (Inr entry, w2))))"

fun findIndex :: "('a \<Rightarrow> bool) \<Rightarrow> 'a list \<Rightarrow> nat option" where
  "findIndex p [] = None"
| "findIndex p (x # xs) = (if p x then Some 0 else map_option Suc (findIndex p xs))"

text \<open>
  The \<^verbatim>\<open>updates\<close> of \<open>updateKey\<close>: each of the three fields is present
  (\<open>Some\<close>) or left out.
\<close>

record key_update =
  u_name :: "string option"
  u_apiKey :: "string option"
  u_endpointUrl :: "string option"

definition updateKey :: "platform \<Rightarrow> bytes \<Rightarrow> int \<Rightarrow> int \<Rightarrow> string \<Rightarrow> key_update \<Rightarrow> world
    \<Rightarrow> (string + ApiKeyEntry option) \<times> world" where
  "updateKey P fresh_iv now1 now2 i updates w =
     (if \<not> isUnlocked w then (Inl ''Vault is locked'', w)
      else case decryptedKeys w of
             None \<Rightarrow> (Inl ''Vault is locked'', w)
           | Some keys \<Rightarrow>
               (case findIndex (\<lambda>k. key_id k = i) keys of
                  None \<Rightarrow> (Inr None, w)
                | Some index \<Rightarrow>
                    (let key = keys ! index;
                         updated =
                           key\<lparr>key_name := (case u_name updates of Some n \<Rightarrow> n | None \<Rightarrow> key_name key),
                               apiKey := (case u_apiKey updates of Some s \<Rightarrow> s | None \<Rightarrow> apiKey key),
                               endpointUrl := (case u_endpointUrl updates of
                                                 Some u \<Rightarrow> Some u
                                               | None \<Rightarrow> endpointUrl key),
                               updatedAt := now1\<rparr>;
                         w1 = w\<lparr>decryptedKeys := Some (keys[index := updated])\<rparr>;
                         (r, w2) = vault_saveVault P fresh_iv now2 w1
                     in case r of
                          Inl e \<Rightarrow> (Inl e, w2)
                        | Inr _ \<Rightarrow>
                            (case u_endpointUrl updates of
                               Some u \<Rightarrow>
                                 (if provider key = ''lm_studio''
                                  then (Inr (Some updated), saveCustomEndpoint i u w2)
                                  else (Inr (Some updated), w2))
                             | None \<Rightarrow> (Inr (Some updated), w2)))))"

definition deleteKey :: "platform \<Rightarrow> bytes \<Rightarrow> int \<Rightarrow> string \<Rightarrow> world \<Rightarrow> (string + bool) \<times> world" where
  "deleteKey P fresh_iv now i w =
     (if \<not> isUnlocked w then (Inl ''Vault is locked'', w)
      else case decryptedKeys w of
             None \<Rightarrow> (Inl ''Vault is locked'', w)
           | Some keys \<Rightarrow>
               (case findIndex (\<lambda>k. key_id k = i) keys of
                  None \<Rightarrow> (Inr False, w)
                | Some index \<Rightarrow>
                    (let w1 = w\<lparr>decryptedKeys := Some (take index keys @ drop (Suc index) keys)\<rparr>;
                         (r, w2) = vault_saveVault P fresh_iv now w1
                     in case r of
                          Inl e \<Rightarrow> (Inl e, w2)
                        | Inr _ \<Rightarrow> (Inr True, w2))))"

definition changePassword :: "platform \<Rightarrow> bytes \<Rightarrow> bytes \<Rightarrow> int \<Rightarrow> string \<Rightarrow> string \<Rightarrow> world
    \<Rightarrow> bool \<times> world" where
  "changePassword P fresh_salt fresh_iv now oldPassword newPassword w =
     (let (vault_opt, w1) = getVault w
      in case vault_opt of
           None \<Rightarrow> (False, w1)
         | Some vault \<Rightarrow>
             (case try_open P oldPassword vault of
                None \<Rightarrow> (False, w1)
              | Some (oldKey, keys) \<Rightarrow>
                  (let (newKey, newSalt) = deriveKey P fresh_salt newPassword None;
                       data = json_stringify P keys;
                       (newCiphertext, newIv) = encrypt P fresh_iv data newKey;
                       newVault = \<lparr>encrypted = toBase64 P newCiphertext,
                                   salt = toBase64 P newSalt,
                                   iv = toBase64 P newIv,
                                   v_createdAt = v_createdAt vault,
                                   v_updatedAt = now\<rparr>;
                       w2 = storage_saveVault newVault w1;
                       w3 = (case encryptionKey w2 of
                               Some a \<Rightarrow> zero_buffer a w2
                             | None \<Rightarrow> w2)
                   in (True, (hold_key newKey w3)\<lparr>decryptedKeys := Some keys\<rparr>))))"

subsection \<open>SessionService\<close>

definition resetAutoLockTimer :: "world \<Rightarrow> world" where
  "resetAutoLockTimer w =
     (let (settings, w1) = getSettings w;
          minutes = autoLockMinutes settings;
          w2 = w1\<lparr>alarm := None\<rparr>
      in if minutes > 0 then w2\<lparr>alarm := Some minutes\<rparr> else w2)"

definition recordActivity :: "int \<Rightarrow> world \<Rightarrow> world" where
  "recordActivity now w =
     (let w1 = w\<lparr>lastActivity := now\<rparr>
      in if isUnlocked w1 then resetAutoLockTimer w1 else w1)"

text \<open>\<^verbatim>\<open>Math.ceil(a / b)\<close> on integers, for a positive \<open>b\<close>.\<close>

definition ceil_div :: "int \<Rightarrow> int \<Rightarrow> int" where
  "ceil_div a b = - ((- a) div b)"

text \<open>
  \<open>handleAutoLock\<close> runs when the alarm fires; \<open>now\<close> is the reading of the clock.
  The message to the popups is sent, whether or not a listener receives it.
\<close>

definition handleAutoLock :: "int \<Rightarrow> world \<Rightarrow> world" where
  "handleAutoLock now w =
     (let (settings, w1) = getSettings w;
          minutes = autoLockMinutes settings
      in if minutes = 0 then w1
         else
           (let inactiveMs = now - lastActivity w1;
                thresholdMs = minutes * 60 * 1000
            in if inactiveMs \<ge> thresholdMs
               then (let w2 = lock w1
                     in w2\<lparr>runtime_messages := runtime_messages w2 @ [''SESSION_LOCKED'']\<rparr>)
               else
                 (let remainingMs = thresholdMs - inactiveMs;
                      remainingMinutes = ceil_div remainingMs 60000
                  in w1\<lparr>alarm := Some remainingMinutes\<rparr>)))"

definition setAutoLockMinutes :: "int \<Rightarrow> world \<Rightarrow> world" where
  "setAutoLockMinutes minutes w =
     resetAutoLockTimer
       (updateSettings \<lparr>su_autoLockMinutes = Some minutes, su_historyEnabled = None,
                        su_maxHistoryEntries = None\<rparr> w)"

definition session_lock :: "world \<Rightarrow> world" where
  "session_lock w = (lock w)\<lparr>alarm := None\<rparr>"

definition session_unlock :: "platform \<Rightarrow> string \<Rightarrow> world \<Rightarrow> (string + bool) \<times> world" where
  "session_unlock P password w =
     (let (success, w1) = unlock P password w
      in if success = Inr True then (success, resetAutoLockTimer w1) else (success, w1))"

subsection \<open>The proxy (background/api-proxy.ts)\<close>

text \<open>
  What \<^verbatim>\<open>fetch\<close> is called with, and what it answers. The body of a request is
  the text that \<^verbatim>\<open>JSON.stringify(body)\<close> yields, \<open>None\<close> for a missing or
  falsy body. A response carries its status, its headers (names in lower case, as the
  \<^verbatim>\<open>Headers\<close> object holds them), the outcomes of \<^verbatim>\<open>response.json()\<close> and
  \<^verbatim>\<open>response.text()\<close> (\<open>Inl\<close> when the call rejects), and its body stream,
  \<open>None\<close> for a null body. A body stream is the sequence of the results of
  \<^verbatim>\<open>reader.read()\<close>: text chunks, as \<^verbatim>\<open>decoder.decode(value, {stream: true})\<close>
  returns them, closed by the end of the stream or by a read that rejects. A stream
  that never ends is not represented.
\<close>

datatype read_stream = Chunk string read_stream | EndOfStream | ReadError string

datatype body_value = JsonValue string | TextValue string

record http_request =
  q_url :: string
  q_method :: string
  q_headers :: "string \<rightharpoonup> string"
  q_body :: "string option"

record http_response =
  r_status :: int
  r_headers :: "string \<rightharpoonup> string"
  r_json :: "string + string"
  r_text :: "string + string"
  r_body :: "read_stream option"

type_synonym network = "http_request \<Rightarrow> string + http_response"

record api_result =
  a_status :: int
  a_headers :: "string \<rightharpoonup> string"
  a_body :: body_value

fun starts_with :: "'a list \<Rightarrow> 'a list \<Rightarrow> bool" where
  "starts_with xs [] = True"
| "starts_with [] (y # ys) = False"
| "starts_with (x # xs) (y # ys) = (x = y \<and> starts_with xs ys)"

text \<open>\<^verbatim>\<open>String.prototype.includes\<close>.\<close>

fun str_includes :: "'a list \<Rightarrow> 'a list \<Rightarrow> bool" where
  "str_includes [] t = (t = [])"
| "str_includes (x # xs) t = (starts_with (x # xs) t \<or> str_includes xs t)"

definition response_ok :: "http_response \<Rightarrow> bool" where
  "response_ok r = (200 \<le> r_status r \<and> r_status r \<le> 299)"

definition fetch_request :: "string \<Rightarrow> string \<Rightarrow> (string \<rightharpoonup> string) \<Rightarrow> string option
    \<Rightarrow> http_request" where
  "fetch_request url method headers body =
     \<lparr>q_url = url, q_method = method,
      q_headers = [''Content-Type'' \<mapsto> ''application/json''] ++ headers,
      q_body = body\<rparr>"

definition makeApiRequest :: "network \<Rightarrow> string \<Rightarrow> string \<Rightarrow> (string \<rightharpoonup> string) \<Rightarrow> string option
    \<Rightarrow> string + api_result" where
  "makeApiRequest net url method headers body =
     (case net (fetch_request url method headers body) of
        Inl e \<Rightarrow> Inl e
      | Inr response \<Rightarrow>
          (let responseHeaders = r_headers response;
               contentType = r_headers response ''content-type''
           in if (case contentType of Some ct \<Rightarrow> str_includes ct ''application/json'' | None \<Rightarrow> False)
              then (case r_json response of
                      Inl e \<Rightarrow> Inl e
                    | Inr v \<Rightarrow>
                        Inr \<lparr>a_status = r_status response, a_headers = responseHeaders,
                             a_body = JsonValue v\<rparr>)
              else (case r_text response of
                      Inl e \<Rightarrow> Inl e
                    | Inr t \<Rightarrow>
                        Inr \<lparr>a_status = r_status response, a_headers = responseHeaders,
                             a_body = TextValue t\<rparr>)))"

text \<open>
  \<open>broadcastStreamChunk\<close> sends the chunk to every tab whose \<^verbatim>\<open>id\<close> is truthy
  (present and not 0); a send that fails for a tab is ignored.
\<close>

definition tab_ids :: "nat option list \<Rightarrow> nat list" where
  "tab_ids ts = concat (map (\<lambda>t. case t of None \<Rightarrow> [] | Some i \<Rightarrow> if i = 0 then [] else [i]) ts)"

definition broadcastStreamChunk :: "string \<Rightarrow> string \<Rightarrow> bool \<Rightarrow> world \<Rightarrow> world" where
  "broadcastStreamChunk requestId chunk done w =
     w\<lparr>tab_messages := tab_messages w @
          map (\<lambda>i. (i, \<lparr>sc_type = ''TINYLOCKET_STREAM_CHUNK'', sc_requestId = requestId,
                        sc_chunk = chunk, sc_done = done\<rparr>))
              (tab_ids (tabs w))\<rparr>"

text \<open>
  The \<^verbatim>\<open>while (true)\<close> loop of \<open>makeStreamingRequest\<close> inside its
  \<^verbatim>\<open>try\<close>/\<^verbatim>\<open>catch\<close>: the result is the full content, or the error that the
  \<^verbatim>\<open>catch\<close> block throws again.
\<close>

fun read_loop :: "string \<Rightarrow> string \<Rightarrow> read_stream \<Rightarrow> world \<Rightarrow> (string + string) \<times> world" where
  "read_loop requestId fullContent EndOfStream w =
     (Inr fullContent, broadcastStreamChunk requestId [] True w)"
| "read_loop requestId fullContent (ReadError e) w =
     (Inl e, broadcastStreamChunk requestId [] True w)"
| "read_loop requestId fullContent (Chunk c rest) w =
     read_loop requestId (fullContent @ c) rest (broadcastStreamChunk requestId c False w)"

definition makeStreamingRequest :: "network \<Rightarrow> string \<Rightarrow> string \<Rightarrow> (string \<rightharpoonup> string)
    \<Rightarrow> string option \<Rightarrow> string \<Rightarrow> world \<Rightarrow> (string + api_result) \<times> world" where
  "makeStreamingRequest net url method headers body requestId w =
     (case net (fetch_request url method headers body) of
        Inl e \<Rightarrow> (Inl e, w)
      | Inr response \<Rightarrow>
          (let responseHeaders = r_headers response
           in if \<not> response_ok response
              then (case r_text response of
                      Inl e \<Rightarrow> (Inl e, w)
                    | Inr errorBody \<Rightarrow>
                        (Inr \<lparr>a_status = r_status response, a_headers = responseHeaders,
                              a_body = TextValue errorBody\<rparr>, w))
              else case r_body response of
                     None \<Rightarrow> (Inl ''Response body is null'', w)
                   | Some stream \<Rightarrow>
                       (case read_loop requestId [] stream w of
                          (Inl e, w1) \<Rightarrow> (Inl e, w1)
                        | (Inr fullContent, w1) \<Rightarrow>
                            (Inr \<lparr>a_status = r_status response, a_headers = responseHeaders,
                                  a_body = TextValue fullContent\<rparr>, w1))))"

subsection \<open>The message handler (background/message-handler.ts)\<close>

record request_payload =
  p_provider :: "LlmProvider option"
  p_endpoint :: "string option"
  p_method :: "string option"
  p_headers :: "(string \<rightharpoonup> string) option"
  p_body :: "string option"
  p_stream :: "bool option"
  p_endpointUrl :: "string option"

record MessageResponse =
  m_type :: string
  m_requestId :: string
  m_success :: bool
  m_error :: "(TinylocketErrorCode \<times> string) option"
  m_data :: "api_result option"

definition RESPONSE :: string where
  "RESPONSE = ''TINYLOCKET_RESPONSE''"

definition error_response :: "string \<Rightarrow> TinylocketErrorCode \<Rightarrow> string \<Rightarrow> MessageResponse" where
  "error_response requestId code message =
     \<lparr>m_type = RESPONSE, m_requestId = requestId, m_success = False,
      m_error = Some (code, message), m_data = None\<rparr>"

text \<open>
  What the environment supplies during one \<open>handleRequest\<close>: the readings of the
  clock at the start, in \<open>recordActivity\<close>, for the duration and for the timestamp
  of the history entry, and the uuid of that entry.
\<close>

record request_env =
  e_startTime :: int
  e_activityTime :: int
  e_endTime :: int
  e_timestamp :: int
  e_uuid :: string

definition history_entry :: "request_env \<Rightarrow> LlmProvider \<Rightarrow> string option \<Rightarrow> string \<Rightarrow> int
    \<Rightarrow> RequestHistoryEntry" where
  "history_entry env prov endpoint hostname status =
     \<lparr>h_id = e_uuid env, h_timestamp = e_timestamp env, h_provider = prov,
      h_endpoint = (if truthy endpoint then (case endpoint of Some e \<Rightarrow> e | None \<Rightarrow> []) else []),
      h_domain = hostname, h_status = status, h_durationMs = e_endTime env - e_startTime env\<rparr>"

text \<open>
  \<open>handleRequest\<close>. The result is \<open>Inl\<close> when the handler itself throws, which
  happens when \<^verbatim>\<open>new URL(origin)\<close> does. A template literal prints a missing
  \<^verbatim>\<open>endpoint\<close> as \<^verbatim>\<open>undefined\<close>.
\<close>

definition handleRequest :: "platform \<Rightarrow> network \<Rightarrow> request_env \<Rightarrow> string \<Rightarrow> request_payload
    \<Rightarrow> string \<Rightarrow> world \<Rightarrow> (string + MessageResponse) \<times> world" where
  "handleRequest P net env requestId payload origin w =
     (if \<not> isUnlocked w
      then (Inr (error_response requestId LOCKED
                   ''Extension is locked. Please unlock to continue.''), w)
      else
        (let w1 = recordActivity (e_activityTime env) w
         in case url_hostname P origin of
              None \<Rightarrow> (Inl ''Invalid URL'', w1)
            | Some hostname \<Rightarrow>
                (let (isWhitelisted, w2) = isDomainWhitelisted hostname w1
                 in if \<not> isWhitelisted
                    then (Inr (error_response requestId DOMAIN_NOT_ALLOWED
                                 (''Domain '' @ hostname @
                                  '' is not whitelisted. Add it in the TinyLocket extension.'')),
                          w2)
                    else
                      (let endpoint = p_endpoint payload;
                           method = (case p_method payload of Some m \<Rightarrow> m | None \<Rightarrow> ''POST'');
                           headers = (case p_headers payload of Some h \<Rightarrow> h | None \<Rightarrow> Map.empty);
                           body = p_body payload;
                           stream = p_stream payload;
                           endpointUrl' = p_endpointUrl payload
                       in if \<not> truthy (p_provider payload)
                          then (Inr (error_response requestId INVALID_REQUEST
                                       ''Provider is required''), w2)
                          else
                            (let prov = (case p_provider payload of Some p \<Rightarrow> p | None \<Rightarrow> [])
                             in case getKeyForProvider prov w2 of
                                  Inl e \<Rightarrow> (Inl e, w2)
                                | Inr None \<Rightarrow>
                                    (Inr (error_response requestId NO_KEY
                                            (''No API key configured for '' @ prov @
                                             ''. Add one in the TinyLocket extension.'')), w2)
                                | Inr (Some keyEntry) \<Rightarrow>
                                    (case getProviderById prov of
                                       None \<Rightarrow>
                                         (Inr (error_response requestId INVALID_REQUEST
                                                 (''Unknown provider: '' @ prov)), w2)
                                     | Some providerConfig \<Rightarrow>
                                         (let base =
                                                (if requiresEndpointUrl providerConfig
                                                 then (if truthy endpointUrl'
                                                       then (case endpointUrl' of
                                                               Some u \<Rightarrow> u | None \<Rightarrow> [])
                                                       else if truthy (endpointUrl keyEntry)
                                                       then (case endpointUrl keyEntry of
                                                               Some u \<Rightarrow> u | None \<Rightarrow> [])
                                                       else [])
                                                 else baseUrl providerConfig)
                                          in if requiresEndpointUrl providerConfig \<and> base = []
                                             then (Inr (error_response requestId INVALID_REQUEST
                                                     ''Custom endpoint URL is required for this provider''),
                                                   w2)
                                             else
                                               (let fullUrl =
                                                      base @ (case endpoint of
                                                                Some e \<Rightarrow> e
                                                              | None \<Rightarrow> ''undefined'');
                                                    authHeaders0 =
                                                      headers(authHeader providerConfig \<mapsto>
                                                        authPrefix providerConfig @ apiKey keyEntry);
                                                    authHeaders =
                                                      (if prov = ''anthropic''
                                                       then authHeaders0(''anthropic-version'' \<mapsto>
                                                              ''2023-06-01'')
                                                       else authHeaders0);
                                                    (result, w3) =
                                                      (if stream = Some True
                                                       then makeStreamingRequest net fullUrl method
                                                              authHeaders body requestId w2
                                                       else (makeApiRequest net fullUrl method
                                                               authHeaders body, w2))
                                                in case result of
                                                     Inr res \<Rightarrow>
                                                       (Inr \<lparr>m_type = RESPONSE,
                                                             m_requestId = requestId,
                                                             m_success = True, m_error = None,
                                                             m_data = Some res\<rparr>,
                                                        addRequestHistory
                                                          (history_entry env prov endpoint hostname
                                                             (a_status res)) w3)
                                                   | Inl e \<Rightarrow>
                                                       (Inr (error_response requestId
                                                               NETWORK_ERROR e),
                                                        addRequestHistory
                                                          (history_entry env prov endpoint hostname 0)
                                                          w3)))))))))"

subsection \<open>Concrete instances\<close>

text \<open>
  A small platform on which the functions can be run: the key is the password followed
  by the salt; a ciphertext is a tag that spells out the key (each byte after a 1, closed
  by a 0), then the nonce, then the plaintext, and decryption checks tag and nonce. It
  stands for no real library; the theorems below hold for every platform, and the
  instances show their hypotheses at work.
\<close>

definition demo_tag :: "bytes \<Rightarrow> bytes" where
  "demo_tag k = concat (map (\<lambda>b. [1, b]) k) @ [0]"

definition demo_platform :: platform where
  "demo_platform =
     \<lparr>pbkdf2 = (\<lambda>password s c dkLen. map of_char password @ s),
      gcm_encrypt = (\<lambda>k n m. demo_tag k @ n @ m),
      gcm_decrypt = (\<lambda>k n c. if take (length (demo_tag k) + length n) c = demo_tag k @ n
                               then Some (drop (length (demo_tag k) + length n) c) else None),
      text_encode = map of_char,
      text_decode = map (\<lambda>b. char_of (unat b)),
      btoa = (\<lambda>s. s),
      atob = Some,
      json_stringify =
        (\<lambda>ks. ''['' @ concat (map (\<lambda>k. ''{'' @ key_id k @ '':'' @ apiKey k @ ''}'') ks) @ '']''),
      json_parse = (\<lambda>s. if s = ''[]'' then Some [] else None),
      url_hostname =
        (\<lambda>origin. if starts_with origin ''https://'' then Some (drop 8 origin) else None)\<rparr>"

text \<open>The state of a freshly started extension with empty storage.\<close>

definition initial_world :: world where
  "initial_world =
     \<lparr>local_storage = \<lparr>cl_vault = None, cl_whitelistedDomains = None, cl_requestHistory = None,
                        cl_settings = None, cl_customEndpoints = None\<rparr>,
      writes = [], cache = None, buffers = [], decryptedKeys = None, encryptionKey = None,
      lastActivity = 0, alarm = None, runtime_messages = [], tabs = [], tab_messages = []\<rparr>"

definition demo_unlocked :: world where
  "demo_unlocked =
     initial_world\<lparr>buffers := [[7, 9, 11]], encryptionKey := Some 0, decryptedKeys := Some []\<rparr>"

definition demo_entry :: RequestHistoryEntry where
  "demo_entry = \<lparr>h_id = ''h1'', h_timestamp = 1000, h_provider = ''openai'',
                 h_endpoint = ''/v1/models'', h_domain = ''example.com'', h_status = 200,
                 h_durationMs = 12\<rparr>"

definition world_cap0 :: world where
  "world_cap0 = initial_world\<lparr>local_storage := (local_storage initial_world)
      \<lparr>cl_settings := Some \<lparr>autoLockMinutes = 30, historyEnabled = True,
                             maxHistoryEntries = 0\<rparr>\<rparr>\<rparr>"

definition world_auto5 :: world where
  "world_auto5 = demo_unlocked\<lparr>local_storage := (local_storage demo_unlocked)
      \<lparr>cl_settings := Some \<lparr>autoLockMinutes = 5, historyEnabled = True,
                             maxHistoryEntries = 1000\<rparr>\<rparr>\<rparr>"

definition demo_stream :: read_stream where
  "demo_stream = Chunk ''Hello'' (Chunk '' world'' (ReadError ''connection reset''))"

definition demo_net :: network where
  "demo_net = (\<lambda>q. Inr \<lparr>r_status = 200, r_headers = Map.empty, r_json = Inl ''not json'',
                         r_text = Inl ''body used'', r_body = Some demo_stream\<rparr>)"

definition world_tabs :: world where
  "world_tabs = initial_world\<lparr>tabs := [Some 7, None, Some 0]\<rparr>"

definition demo_env :: request_env where
  "demo_env = \<lparr>e_startTime = 1000, e_activityTime = 1001, e_endTime = 1050, e_timestamp = 1051,
               e_uuid = ''h-1''\<rparr>"

definition demo_key :: ApiKeyEntry where
  "demo_key = \<lparr>key_id = ''k-1'', provider = ''acme'', key_name = ''Acme'', apiKey = ''sk-test'',
               endpointUrl = None, createdAt = 5, updatedAt = 5\<rparr>"

definition demo_payload :: request_payload where
  "demo_payload = \<lparr>p_provider = Some ''acme'', p_endpoint = Some ''/v1/models'',
                   p_method = Some ''GET'', p_headers = None, p_body = None, p_stream = None,
                   p_endpointUrl = None\<rparr>"

definition world_req :: world where
  "world_req = demo_unlocked\<lparr>local_storage := (local_storage demo_unlocked)
      \<lparr>cl_whitelistedDomains := Some [\<lparr>domain = ''example.com'', addedAt = 1\<rparr>]\<rparr>\<rparr>"

definition world_created :: world where
  "world_created =
     snd (create demo_platform [1, 2] [3, 4] 100 100 ''correct-horse-battery'' initial_world)"

definition world_locked :: world where
  "world_locked = lock world_created"


text \<open>
  A second platform, closer to the libraries in two respects. \<^verbatim>\<open>pbkdf2\<close> runs
  HMAC with the password as its key, and HMAC pads a key shorter than the 64-byte block
  of SHA-256 with zero bytes, so a password and the same password followed by a NUL
  character are one key (\<open>hmac_key\<close> leaves longer keys alone; HMAC hashes them
  first). A string stands for its UTF-8 bytes, and the decoder, like
  \<^verbatim>\<open>new TextDecoder()\<close>, drops a leading byte order mark.
\<close>

definition hmac_key :: "bytes \<Rightarrow> bytes" where
  "hmac_key k = k @ replicate (64 - length k) 0"

definition strip_bom :: "bytes \<Rightarrow> bytes" where
  "strip_bom bs = (if take 3 bs = [0xEF, 0xBB, 0xBF] then drop 3 bs else bs)"

definition web_platform :: platform where
  "web_platform =
     demo_platform
       \<lparr>pbkdf2 := (\<lambda>password s c dkLen. hmac_key (map of_char password) @ s),
        text_decode := (\<lambda>bs. map (\<lambda>b. char_of (unat b)) (strip_bom bs))\<rparr>"

definition world_locked_web :: world where
  "world_locked_web =
     lock (snd (create web_platform [1, 2] [3, 4] 100 100 ''correct-horse-battery''
                  initial_world))"

text \<open>The text \<^verbatim>\<open>[]\<close> after a byte order mark (U+FEFF).\<close>

definition bom_text :: string where
  "bom_text = [CHR 0xEF, CHR 0xBB, CHR 0xBF] @ ''[]''"

subsection \<open>Auxiliary notions\<close>

text \<open>The trimming step of \<open>addRequestHistory\<close>, on its own.\<close>

definition trim :: "int \<Rightarrow> 'a list \<Rightarrow> 'a list" where
  "trim m xs = (if int (length xs) > m then js_slice (- m) xs else xs)"

text \<open>
  The text chunks of a body stream, the error that closes it if one does, and the
  messages that one broadcast sends, one to each tab with a truthy \<^verbatim>\<open>id\<close>.
\<close>

fun stream_chunks :: "read_stream \<Rightarrow> string list" where
  "stream_chunks (Chunk c rest) = c # stream_chunks rest"
| "stream_chunks EndOfStream = []"
| "stream_chunks (ReadError e) = []"

fun stream_error :: "read_stream \<Rightarrow> string option" where
  "stream_error (Chunk c rest) = stream_error rest"
| "stream_error EndOfStream = None"
| "stream_error (ReadError e) = Some e"

definition to_tabs :: "world \<Rightarrow> string \<Rightarrow> string \<Rightarrow> bool \<Rightarrow> (nat \<times> stream_chunk) list" where
  "to_tabs w requestId chunk done =
     map (\<lambda>i. (i, \<lparr>sc_type = ''TINYLOCKET_STREAM_CHUNK'', sc_requestId = requestId,
                   sc_chunk = chunk, sc_done = done\<rparr>))
         (tab_ids (tabs w))"

text \<open>
  The key that \<open>deriveKey\<close> computes from a password and a salt, and the vault
  record that \<open>create\<close>, \<open>saveVault\<close> and \<open>changePassword\<close> build from a key, a
  salt, a nonce, two timestamps and a credential list.
\<close>

definition derived :: "platform \<Rightarrow> string \<Rightarrow> bytes \<Rightarrow> bytes" where
  "derived P password s = pbkdf2 P password s PBKDF2_ITERATIONS KEY_LENGTH"

definition sealed_vault :: "platform \<Rightarrow> bytes \<Rightarrow> bytes \<Rightarrow> bytes \<Rightarrow> int \<Rightarrow> int \<Rightarrow> ApiKeyEntry list
    \<Rightarrow> VaultData" where
  "sealed_vault P key s n t1 t2 keys =
     \<lparr>encrypted = toBase64 P (gcm_encrypt P key n (text_encode P (json_stringify P keys))),
      salt = toBase64 P s, iv = toBase64 P n, v_createdAt = t1, v_updatedAt = t2\<rparr>"

text \<open>
  The vault records written to storage so far, oldest first; and the statement that
  between two states exactly one vault record was written, that it is the stored one,
  and that it holds the salt \<open>salt64\<close>, the nonce \<open>n\<close> and the ciphertext of
  the credential list now in memory under \<open>key\<close> and that nonce.
\<close>

definition vault_writes :: "world \<Rightarrow> VaultData list" where
  "vault_writes w = concat (map (\<lambda>x. case x of SetVault v \<Rightarrow> [v] | _ \<Rightarrow> []) (writes w))"

definition writes_vault_once :: "platform \<Rightarrow> world \<Rightarrow> world \<Rightarrow> bytes \<Rightarrow> string \<Rightarrow> bytes \<Rightarrow> bool" where
  "writes_vault_once P w w' key salt64 n =
     (case cl_vault (local_storage w') of
        None \<Rightarrow> False
      | Some v' \<Rightarrow>
          (case decryptedKeys w' of
             None \<Rightarrow> False
           | Some keys' \<Rightarrow>
               vault_writes w' = vault_writes w @ [v']
               \<and> fst (getVault w') = Some v'
               \<and> encrypted v' =
                   toBase64 P (gcm_encrypt P key n (text_encode P (json_stringify P keys')))
               \<and> iv v' = toBase64 P n
               \<and> salt v' = salt64))"

text \<open>
  The reference in \<^verbatim>\<open>encryptionKey\<close>, when there is one, refers to an existing
  buffer.
\<close>

definition key_ref_valid :: "world \<Rightarrow> bool" where
  "key_ref_valid w = (case encryptionKey w of None \<Rightarrow> True | Some a \<Rightarrow> a < length (buffers w))"

section \<open>Properties\<close>

subsection \<open>StorageService: reading through the cache\<close>

lemma getAll_cache: "cache (snd (getAll w)) = Some (fst (getAll w))"
  by (simp add: getAll_def Let_def split: option.splits)

lemma getAll_idem: "getAll (snd (getAll w)) = (fst (getAll w), snd (getAll w))"
  by (simp add: getAll_def Let_def split: option.splits)

lemma getAll_frame:
  "local_storage (snd (getAll w)) = local_storage w"
  "writes (snd (getAll w)) = writes w"
  "buffers (snd (getAll w)) = buffers w"
  "decryptedKeys (snd (getAll w)) = decryptedKeys w"
  "encryptionKey (snd (getAll w)) = encryptionKey w"
  "lastActivity (snd (getAll w)) = lastActivity w"
  "alarm (snd (getAll w)) = alarm w"
  "runtime_messages (snd (getAll w)) = runtime_messages w"
  "tabs (snd (getAll w)) = tabs w"
  "tab_messages (snd (getAll w)) = tab_messages w"
  by (simp_all add: getAll_def Let_def split: option.splits)

subsection \<open>The history cap\<close>

lemma trim_pos: "1 \<le> m \<Longrightarrow> trim m xs = drop (length xs - nat m) xs"
  by (auto simp add: trim_def js_slice_def Let_def max_def nat_diff_distrib')

lemma addRequestHistory_history:
  "historyEnabled (fst (getSettings w)) \<Longrightarrow>
   fst (getRequestHistory (addRequestHistory e w)) =
     trim (maxHistoryEntries (fst (getSettings w))) (fst (getRequestHistory w) @ [e])"
  by (cases "cache w")
     (simp_all add: getRequestHistory_def getSettings_def addRequestHistory_def trim_def
        getAll_def Let_def split_def)

lemma addRequestHistory_settings:
  "fst (getSettings (addRequestHistory e w)) = fst (getSettings w)"
  by (cases "cache w")
     (simp_all add: getSettings_def addRequestHistory_def getAll_def Let_def split_def)

lemma drop_tail_step:
  fixes X E :: "'a list"
  shows "drop (length (drop (length X - m) X @ E) - m) (drop (length X - m) X @ E)
       = drop (length (X @ E) - m) (X @ E)"
  by (cases "length X \<le> m") (auto simp add: drop_append add.commute)

lemma fold_addRequestHistory:
  assumes "historyEnabled (fst (getSettings w))"
    and "1 \<le> maxHistoryEntries (fst (getSettings w))"
    and "es \<noteq> []"
  shows "fst (getRequestHistory (fold addRequestHistory es w)) =
         drop (length (fst (getRequestHistory w) @ es)
                 - nat (maxHistoryEntries (fst (getSettings w))))
              (fst (getRequestHistory w) @ es)"
  using assms
proof (induction es arbitrary: w)
  case Nil
  then show ?case by simp
next
  case (Cons e es)
  let ?m = "maxHistoryEntries (fst (getSettings w))"
  let ?w1 = "addRequestHistory e w"
  let ?h = "fst (getRequestHistory w)"
  have h1: "fst (getRequestHistory ?w1) = drop (length (?h @ [e]) - nat ?m) (?h @ [e])"
    using Cons.prems by (simp add: addRequestHistory_history trim_pos)
  show ?case
  proof (cases "es = []")
    case True
    then show ?thesis using h1 by simp
  next
    case False
    have "fst (getRequestHistory (fold addRequestHistory es ?w1)) =
          drop (length (fst (getRequestHistory ?w1) @ es) - nat ?m)
               (fst (getRequestHistory ?w1) @ es)"
      using Cons.IH [of ?w1] Cons.prems False by (simp add: addRequestHistory_settings)
    also have "\<dots> = drop (length ((?h @ [e]) @ es) - nat ?m) ((?h @ [e]) @ es)"
      unfolding h1 by (rule drop_tail_step)
    finally show ?thesis by simp
  qed
qed

text \<open>
  With history enabled and a cap of at least 1, inserting cap + k entries (k at least 1)
  into any starting history leaves exactly the cap most recent entries, in order.
\<close>

lemma addRequestHistory_cap_positive:
  assumes "historyEnabled (fst (getSettings w))"
    and "1 \<le> maxHistoryEntries (fst (getSettings w))"
    and "length es = nat (maxHistoryEntries (fst (getSettings w))) + k"
    and "1 \<le> k"
  shows "fst (getRequestHistory (fold addRequestHistory es w)) = drop k es"
    and "int (length (fst (getRequestHistory (fold addRequestHistory es w))))
           = maxHistoryEntries (fst (getSettings w))"
proof -
  have ne: "es \<noteq> []" using assms by auto
  show "fst (getRequestHistory (fold addRequestHistory es w)) = drop k es"
    using fold_addRequestHistory [OF assms(1,2) ne] assms(3) by (simp add: drop_append)
  then show "int (length (fst (getRequestHistory (fold addRequestHistory es w))))
           = maxHistoryEntries (fst (getSettings w))"
    using assms by simp
qed

text \<open>
  C6. History cap: for every settings value with history enabled, after inserting
  \<open>maxHistoryEntries + k\<close> entries (k at least 1) exactly the \<open>maxHistoryEntries\<close>
  most recent entries remain. The code does not do this for \<open>maxHistoryEntries = 0\<close>:
  \<^verbatim>\<open>history.slice(-0)\<close> is the whole array, so with history enabled, a cap of 0 and
  an empty history, inserting 0 + 1 entries leaves one entry, not none.
\<close>

theorem addRequestHistory_cap_zero_keeps_entry:
  "historyEnabled (fst (getSettings world_cap0))
   \<and> maxHistoryEntries (fst (getSettings world_cap0)) = 0
   \<and> fst (getRequestHistory world_cap0) = []
   \<and> fst (getRequestHistory (fold addRequestHistory [demo_entry] world_cap0)) = [demo_entry]
   \<and> cl_requestHistory (local_storage (fold addRequestHistory [demo_entry] world_cap0))
       = Some [demo_entry]"
  by (simp add: world_cap0_def initial_world_def getSettings_def getRequestHistory_def
        addRequestHistory_def getAll_def js_slice_def Let_def)

subsection \<open>Locking\<close>

lemma lock_fields:
  "encryptionKey (lock w) = None"
  "decryptedKeys (lock w) = None"
  by (simp_all add: lock_def zero_buffer_def split: option.splits)

text \<open>
  C9. \<open>lock\<close> overwrites the held key buffer with zeros, drops the reference to it and
  the decrypted credential list, and leaves the vault Locked; a second \<open>lock\<close> leaves
  it Locked again and changes nothing: the state after two calls is the state after one.
\<close>

theorem lock_zeroizes_discards_idempotent:
  "(encryptionKey w = Some a \<longrightarrow> a < length (buffers w) \<longrightarrow>
      buffers (lock w) ! a = replicate (length (buffers w ! a)) 0)
   \<and> encryptionKey (lock w) = None \<and> decryptedKeys (lock w) = None
   \<and> \<not> isUnlocked (lock w)
   \<and> \<not> isUnlocked (lock (lock w))
   \<and> lock (lock w) = lock w"
  by (auto simp add: lock_def zero_buffer_def isUnlocked_def zeroMemory_def map_replicate_const
      split: option.splits)

theorem lock_zeroizes_discards_idempotent_witness:
  "encryptionKey demo_unlocked = Some 0 \<and> 0 < length (buffers demo_unlocked)
   \<and> isUnlocked demo_unlocked
   \<and> buffers demo_unlocked ! 0 = [7, 9, 11]
   \<and> buffers (lock demo_unlocked) ! 0 = [0, 0, 0]
   \<and> \<not> isUnlocked (lock demo_unlocked) \<and> lock (lock demo_unlocked) = lock demo_unlocked"
  using lock_zeroizes_discards_idempotent [of demo_unlocked 0]
  by (simp add: demo_unlocked_def initial_world_def isUnlocked_def)

subsection \<open>Auto-lock\<close>

lemma ceil_div_bounds:
  "0 < b \<Longrightarrow> (ceil_div a b - 1) * b < a \<and> a \<le> ceil_div a b * b"
proof -
  assume b: "0 < b"
  have e: "- a = (- a) div b * b + (- a) mod b" by simp
  have m: "0 \<le> (- a) mod b" "(- a) mod b < b" using b by simp_all
  have l: "(ceil_div a b - 1) * b = - ((- a) div b * b) - b"
    by (simp add: ceil_div_def algebra_simps)
  have r: "ceil_div a b * b = - ((- a) div b * b)"
    by (simp add: ceil_div_def)
  show ?thesis using e m l r by linarith
qed

lemma getSettings_frame:
  "buffers (snd (getSettings w)) = buffers w"
  "decryptedKeys (snd (getSettings w)) = decryptedKeys w"
  "encryptionKey (snd (getSettings w)) = encryptionKey w"
  "lastActivity (snd (getSettings w)) = lastActivity w"
  "alarm (snd (getSettings w)) = alarm w"
  "runtime_messages (snd (getSettings w)) = runtime_messages w"
  "local_storage (snd (getSettings w)) = local_storage w"
  "writes (snd (getSettings w)) = writes w"
  "tabs (snd (getSettings w)) = tabs w"
  "tab_messages (snd (getSettings w)) = tab_messages w"
  by (simp_all add: getSettings_def split_def Let_def getAll_frame)

text \<open>
  C8 (as amended). When the auto-lock alarm fires with auto-lock enabled: if the time
  since the last activity has reached the threshold, the vault is Locked and the
  \<^verbatim>\<open>SESSION_LOCKED\<close> message is sent; otherwise the vault is left as it is and a
  new alarm is created whose delay is the remaining time rounded up to a whole number
  of minutes, so it is at least the remaining time and less than a minute more.
\<close>

theorem handleAutoLock_on_fire:
  assumes "autoLockMinutes (fst (getSettings w)) = minutes"
    and "minutes \<noteq> 0"
    and "w' = handleAutoLock now w"
  shows "(now - lastActivity w \<ge> minutes * 60000 \<longrightarrow>
            \<not> isUnlocked w' \<and> decryptedKeys w' = None \<and> encryptionKey w' = None
            \<and> runtime_messages w' = runtime_messages w @ [''SESSION_LOCKED''])
       \<and> (now - lastActivity w < minutes * 60000 \<longrightarrow>
            isUnlocked w' = isUnlocked w \<and> decryptedKeys w' = decryptedKeys w
            \<and> encryptionKey w' = encryptionKey w \<and> buffers w' = buffers w
            \<and> runtime_messages w' = runtime_messages w
            \<and> alarm w' = Some (ceil_div (minutes * 60000 - (now - lastActivity w)) 60000)
            \<and> (ceil_div (minutes * 60000 - (now - lastActivity w)) 60000 - 1) * 60000
                 < minutes * 60000 - (now - lastActivity w)
            \<and> minutes * 60000 - (now - lastActivity w)
                 \<le> ceil_div (minutes * 60000 - (now - lastActivity w)) 60000 * 60000)"
proof -
  have b: "(ceil_div (minutes * 60000 - (now - lastActivity w)) 60000 - 1) * 60000
                 < minutes * 60000 - (now - lastActivity w)
            \<and> minutes * 60000 - (now - lastActivity w)
                 \<le> ceil_div (minutes * 60000 - (now - lastActivity w)) 60000 * 60000"
    by (rule ceil_div_bounds) simp
  show ?thesis
    using assms b
    by (auto simp add: handleAutoLock_def Let_def split_def getSettings_frame lock_fields
          isUnlocked_def lock_def zero_buffer_def mult.commute split: option.splits)
qed

theorem handleAutoLock_on_fire_witness:
  "autoLockMinutes (fst (getSettings world_auto5)) = 5
   \<and> isUnlocked world_auto5
   \<and> \<not> isUnlocked (handleAutoLock 300000 world_auto5)
   \<and> runtime_messages (handleAutoLock 300000 world_auto5) = [''SESSION_LOCKED'']
   \<and> isUnlocked (handleAutoLock 240000 world_auto5)
   \<and> alarm (handleAutoLock 240000 world_auto5) = Some 1"
  using handleAutoLock_on_fire [of world_auto5 5 "handleAutoLock 300000 world_auto5" 300000]
        handleAutoLock_on_fire [of world_auto5 5 "handleAutoLock 240000 world_auto5" 240000]
  by (simp add: world_auto5_def demo_unlocked_def initial_world_def getSettings_def getAll_def
        Let_def isUnlocked_def ceil_div_def)

text \<open>
  C8 as stated says that the new alarm is scheduled for the remaining time. With a
  threshold of 5 minutes and a fire 4.5 minutes after the last activity, 30000 ms
  remain and the alarm is created for 1 minute.
\<close>

theorem handleAutoLock_rounds_remaining_time_up:
  "autoLockMinutes (fst (getSettings world_auto5)) = 5
   \<and> 270000 - lastActivity world_auto5 < 5 * 60000
   \<and> 5 * 60000 - (270000 - lastActivity world_auto5) = 30000
   \<and> alarm (handleAutoLock 270000 world_auto5) = Some 1
   \<and> (1::int) * 60000 \<noteq> 30000"
  by (simp add: world_auto5_def demo_unlocked_def initial_world_def getSettings_def getAll_def
        Let_def handleAutoLock_def ceil_div_def)

subsection \<open>Streaming\<close>

lemma broadcast_frame:
  "tabs (broadcastStreamChunk r c d w) = tabs w"
  "tab_messages (broadcastStreamChunk r c d w) = tab_messages w @ to_tabs w r c d"
  by (simp_all add: broadcastStreamChunk_def to_tabs_def)

lemma to_tabs_cong: "tabs w1 = tabs w \<Longrightarrow> to_tabs w1 r c d = to_tabs w r c d"
  by (simp add: to_tabs_def)

lemma read_loop_tabs: "tabs (snd (read_loop r acc s w)) = tabs w"
  by (induction s arbitrary: acc w) (simp_all add: broadcast_frame)

lemma read_loop_failure:
  "stream_error s = Some e \<Longrightarrow>
   fst (read_loop r acc s w) = Inl e \<and>
   tab_messages (snd (read_loop r acc s w)) =
     tab_messages w @ concat (map (\<lambda>c. to_tabs w r c False) (stream_chunks s)) @ to_tabs w r [] True"
proof (induction s arbitrary: acc w)
  case (Chunk c rest)
  let ?w1 = "broadcastStreamChunk r c False w"
  have t: "tabs ?w1 = tabs w" by (simp add: broadcast_frame)
  have "\<And>x b. to_tabs ?w1 r x b = to_tabs w r x b"
    using t by (rule to_tabs_cong)
  then show ?case
    using Chunk.IH [of "acc @ c" ?w1] Chunk.prems by (simp add: broadcast_frame)
next
  case EndOfStream
  then show ?case by simp
next
  case (ReadError x)
  then show ?case by (simp add: broadcast_frame)
qed

text \<open>
  C7. When the body stream of a streaming request fails after the reader was obtained,
  \<open>makeStreamingRequest\<close> throws that error, and before it does the broker has
  broadcast, in order, one chunk message for each chunk read and then a final message
  with the request id, an empty chunk and \<^verbatim>\<open>done = true\<close>; that message is the
  last one sent.
\<close>

theorem makeStreamingRequest_failure_emits_done:
  assumes "net (fetch_request url method headers body) = Inr response"
    and "response_ok response"
    and "r_body response = Some stream"
    and "stream_error stream = Some e"
    and "w' = snd (makeStreamingRequest net url method headers body requestId w)"
  shows "fst (makeStreamingRequest net url method headers body requestId w) = Inl e
     \<and> tab_messages w' =
         tab_messages w
         @ concat (map (\<lambda>c. to_tabs w requestId c False) (stream_chunks stream))
         @ to_tabs w requestId [] True
     \<and> (tab_ids (tabs w) \<noteq> [] \<longrightarrow>
           sc_requestId (snd (last (tab_messages w'))) = requestId
           \<and> sc_done (snd (last (tab_messages w'))))"
proof -
  have rl: "fst (read_loop requestId [] stream w) = Inl e"
    "tab_messages (snd (read_loop requestId [] stream w)) =
       tab_messages w @ concat (map (\<lambda>c. to_tabs w requestId c False) (stream_chunks stream))
       @ to_tabs w requestId [] True"
    using read_loop_failure [OF assms(4), of requestId "[]" w] by simp_all
  have res: "makeStreamingRequest net url method headers body requestId w
             = (Inl e, snd (read_loop requestId [] stream w))"
    using assms(1-3) rl(1)
    by (cases "read_loop requestId [] stream w")
       (simp add: makeStreamingRequest_def Let_def)
  have m: "tab_messages w' =
       tab_messages w @ concat (map (\<lambda>c. to_tabs w requestId c False) (stream_chunks stream))
       @ to_tabs w requestId [] True"
    using res rl(2) assms(5) by simp
  have l: "tab_ids (tabs w) \<noteq> [] \<Longrightarrow>
           sc_requestId (snd (last (tab_messages w'))) = requestId
           \<and> sc_done (snd (last (tab_messages w')))"
  proof -
    assume ne: "tab_ids (tabs w) \<noteq> []"
    then have ne': "to_tabs w requestId [] True \<noteq> []" by (simp add: to_tabs_def)
    have "last (tab_messages w') = last (to_tabs w requestId [] True)"
      using ne' m by simp
    then show ?thesis using ne by (simp add: to_tabs_def last_map)
  qed
  show ?thesis using res m l by simp
qed

theorem makeStreamingRequest_failure_emits_done_witness:
  "response_ok \<lparr>r_status = 200, r_headers = Map.empty, r_json = Inl ''not json'',
                r_text = Inl ''body used'', r_body = Some demo_stream\<rparr>
   \<and> stream_error demo_stream = Some ''connection reset''
   \<and> fst (makeStreamingRequest demo_net ''https://api.openai.com/v1/chat'' ''POST'' Map.empty None
            ''req-1'' world_tabs) = Inl ''connection reset''
   \<and> map (\<lambda>m. (fst m, sc_chunk (snd m), sc_done (snd m)))
       (tab_messages (snd (makeStreamingRequest demo_net ''https://api.openai.com/v1/chat'' ''POST''
            Map.empty None ''req-1'' world_tabs)))
     = [(7, ''Hello'', False), (7, '' world'', False), (7, '''', True)]"
  using makeStreamingRequest_failure_emits_done
    [of demo_net "''https://api.openai.com/v1/chat''" "''POST''" Map.empty None
        "\<lparr>r_status = 200, r_headers = Map.empty, r_json = Inl ''not json'',
          r_text = Inl ''body used'', r_body = Some demo_stream\<rparr>"
        demo_stream "''connection reset''"
        "snd (makeStreamingRequest demo_net ''https://api.openai.com/v1/chat'' ''POST''
            Map.empty None ''req-1'' world_tabs)" "''req-1''" world_tabs]
  by (simp add: demo_net_def demo_stream_def response_ok_def world_tabs_def initial_world_def
        to_tabs_def tab_ids_def)

subsection \<open>The checks of handleRequest\<close>



lemma resetAutoLockTimer_getAll:
  "fst (getAll (resetAutoLockTimer w)) = fst (getAll w)"
  by (cases "cache w")
     (simp_all add: resetAutoLockTimer_def getSettings_def split_def Let_def getAll_def)


lemma recordActivity_getAll:
  "fst (getAll (recordActivity t w)) = fst (getAll w)"
proof -
  have "fst (getAll (w\<lparr>lastActivity := t\<rparr>)) = fst (getAll w)"
    by (cases "cache w") (simp_all add: getAll_def Let_def)
  then show ?thesis
    by (simp add: recordActivity_def Let_def resetAutoLockTimer_getAll)
qed

lemma recordActivity_isDomainWhitelisted:
  "fst (isDomainWhitelisted d (recordActivity t w)) = fst (isDomainWhitelisted d w)"
  by (simp add: isDomainWhitelisted_def getWhitelistedDomains_def split_def Let_def
        recordActivity_getAll)

text \<open>
  C4. A request that arrives while the vault is unlocked, from an origin whose hostname
  is not on the allow-list, is answered with \<^verbatim>\<open>DOMAIN_NOT_ALLOWED\<close>, whatever
  the payload and whatever credentials the vault holds.
\<close>

theorem handleRequest_domain_not_allowed:
  assumes "isUnlocked w"
    and "url_hostname P origin = Some d"
    and "\<not> fst (isDomainWhitelisted d w)"
  shows "fst (handleRequest P net env requestId payload origin w) =
           Inr (error_response requestId DOMAIN_NOT_ALLOWED
                  (''Domain '' @ d @ '' is not whitelisted. Add it in the TinyLocket extension.''))"
  using assms recordActivity_isDomainWhitelisted [of d "e_activityTime env" w]
  by (simp add: handleRequest_def Let_def split_def)

theorem handleRequest_domain_not_allowed_witness:
  "isUnlocked (world_req\<lparr>decryptedKeys := Some [demo_key\<lparr>provider := ''openai''\<rparr>]\<rparr>)
   \<and> url_hostname demo_platform ''https://other.com'' = Some ''other.com''
   \<and> \<not> fst (isDomainWhitelisted ''other.com''
              (world_req\<lparr>decryptedKeys := Some [demo_key\<lparr>provider := ''openai''\<rparr>]\<rparr>))
   \<and> fst (handleRequest demo_platform demo_net demo_env ''r-1''
            (demo_payload\<lparr>p_provider := Some ''openai''\<rparr>) ''https://other.com''
            (world_req\<lparr>decryptedKeys := Some [demo_key\<lparr>provider := ''openai''\<rparr>]\<rparr>)) =
       Inr (error_response ''r-1'' DOMAIN_NOT_ALLOWED
              ''Domain other.com is not whitelisted. Add it in the TinyLocket extension.'')"
  using handleRequest_domain_not_allowed
    [of "world_req\<lparr>decryptedKeys := Some [demo_key\<lparr>provider := ''openai''\<rparr>]\<rparr>"
        demo_platform "''https://other.com''" "''other.com''" demo_net demo_env "''r-1''"
        "demo_payload\<lparr>p_provider := Some ''openai''\<rparr>"]
  by (simp add: world_req_def demo_unlocked_def initial_world_def isUnlocked_def
        demo_platform_def isDomainWhitelisted_def getWhitelistedDomains_def getAll_def Let_def)





subsection \<open>The demonstration platform\<close>

lemma char_byte_char: "char_of (unat (of_char c :: 8 word)) = c"
proof -
  have "(of_char c :: 8 word) = of_nat (of_char c)"
    by (simp only: of_nat_of_char)
  then have "unat (of_char c :: 8 word) = (of_char c :: nat) mod 256"
    by (simp only: unat_of_nat) simp
  then show ?thesis by simp
qed

lemma byte_char_byte: "of_char (char_of (unat b)) = (b :: 8 word)"
proof -
  have lt: "unat b < 256" using unsigned_less [of b, where ?'a = nat] by simp
  have "(of_char (char_of (unat b)) :: 8 word) = of_nat (of_char (char_of (unat b)))"
    by (simp only: of_nat_of_char)
  also have "\<dots> = of_nat (unat b)" using lt by simp
  finally show ?thesis by simp
qed

lemma demo_text_round_trip: "text_decode demo_platform (text_encode demo_platform s) = s"
  by (simp add: demo_platform_def comp_def char_byte_char)

lemma demo_base64_round_trip: "fromBase64 demo_platform (toBase64 demo_platform b) = Some b"
  by (simp add: demo_platform_def fromBase64_def toBase64_def comp_def byte_char_byte)

lemma take_take_add: "take a (take (a + b) xs) = take a xs"
  by simp

lemma demo_gcm_opens:
  "gcm_decrypt demo_platform k n (gcm_encrypt demo_platform k n m) = Some m"
  by (simp add: demo_platform_def)

lemma demo_tag_prefix:
  "take (length (demo_tag k')) (demo_tag k @ r) = demo_tag k' \<Longrightarrow> k = k'"
proof (induction k arbitrary: k')
  case Nil
  then show ?case by (cases k') (simp_all add: demo_tag_def)
next
  case (Cons a k)
  show ?case
  proof (cases k')
    case Nil
    then show ?thesis using Cons.prems by (simp add: demo_tag_def)
  next
    case (Cons b k1)
    have "take (length (demo_tag k1)) (demo_tag k @ r) = demo_tag k1 \<and> a = b"
      using Cons.prems Cons by (simp add: demo_tag_def)
    then show ?thesis using Cons.IH [of k1] Cons by simp
  qed
qed

lemma demo_gcm_rejects:
  assumes "k \<noteq> k'"
  shows "gcm_decrypt demo_platform k' n (gcm_encrypt demo_platform k n m) = None"
proof -
  have "take (length (demo_tag k') + length n) (demo_tag k @ n @ m) \<noteq> demo_tag k' @ n"
  proof
    assume e: "take (length (demo_tag k') + length n) (demo_tag k @ n @ m) = demo_tag k' @ n"
    have "take (length (demo_tag k')) (demo_tag k @ n @ m)
          = take (length (demo_tag k')) (demo_tag k' @ n)"
      using e take_take_add [of "length (demo_tag k')" "length n" "demo_tag k @ n @ m"]
      by (simp only:)
    then have "take (length (demo_tag k')) (demo_tag k @ n @ m) = demo_tag k'"
      by simp
    then show False using demo_tag_prefix assms by blast
  qed
  then show ?thesis by (simp add: demo_platform_def)
qed

lemma demo_kdf_injective:
  "W \<noteq> W' \<Longrightarrow> derived demo_platform W s \<noteq> derived demo_platform W' s"
proof -
  have inj: "inj (of_char :: char \<Rightarrow> 8 word)"
    by (rule inj_on_inverseI [where g = "\<lambda>b. char_of (unat b)"]) (simp add: char_byte_char)
  assume "W \<noteq> W'"
  then have "map (of_char :: char \<Rightarrow> 8 word) W \<noteq> map of_char W'"
    using inj by (simp add: inj_map_eq_map)
  then show ?thesis by (simp add: derived_def demo_platform_def)
qed

subsection \<open>The second platform\<close>

lemma hmac_key_trailing_zero: "length k < 64 \<Longrightarrow> hmac_key (k @ [0]) = hmac_key k"
proof -
  assume "length k < 64"
  then obtain j where j: "64 - length k = Suc j" by (cases "64 - length k") simp_all
  then have "64 - length (k @ [0]) = j" by simp
  then show ?thesis using j by (simp add: hmac_key_def)
qed

lemma web_same_key:
  "derived web_platform (''correct-horse-battery'' @ [CHR 0x00]) s
     = derived web_platform ''correct-horse-battery'' s"
  using hmac_key_trailing_zero [of "map of_char ''correct-horse-battery''"]
  by (simp add: derived_def web_platform_def)

lemma web_fields:
  "gcm_encrypt web_platform = gcm_encrypt demo_platform"
  "gcm_decrypt web_platform = gcm_decrypt demo_platform"
  "text_encode web_platform = text_encode demo_platform"
  "json_stringify web_platform = json_stringify demo_platform"
  "json_parse web_platform = json_parse demo_platform"
  "toBase64 web_platform = toBase64 demo_platform"
  "fromBase64 web_platform = fromBase64 demo_platform"
  by (simp_all add: web_platform_def toBase64_def fromBase64_def fun_eq_iff)

lemma decode_bytes: "map (\<lambda>b. char_of (unat b)) (map of_char s :: bytes) = s"
  by (simp add: comp_def char_byte_char)

lemma web_text_codec:
  "text_encode web_platform s = map of_char s"
  "text_decode web_platform bs = map (\<lambda>b. char_of (unat b)) (strip_bom bs)"
  by (simp_all add: web_platform_def demo_platform_def)

lemma strip_bom_short: "length bs < 3 \<Longrightarrow> strip_bom bs = bs"
proof -
  assume "length bs < 3"
  then have "length (take 3 bs) \<noteq> length [0xEF, 0xBB, 0xBF :: 8 word]" by simp
  then have "take 3 bs \<noteq> [0xEF, 0xBB, 0xBF]" by (metis (no_types))
  then show ?thesis by (simp add: strip_bom_def)
qed

lemma strip_bom_mark: "strip_bom ([0xEF, 0xBB, 0xBF] @ bs) = bs"
  by (simp add: strip_bom_def)

lemma bom_bytes: "map of_char [CHR 0xEF, CHR 0xBB, CHR 0xBF] = [0xEF, 0xBB, 0xBF :: 8 word]"
  by simp

lemma web_text_empty_list:
  "text_decode web_platform (text_encode web_platform (json_stringify web_platform []))
     = json_stringify web_platform []"
proof -
  have j: "json_stringify web_platform [] = ''[]''"
    by (simp add: web_platform_def demo_platform_def)
  have "strip_bom (map of_char ''[]'') = map of_char ''[]''"
    by (rule strip_bom_short) simp
  then show ?thesis
    by (simp only: j web_text_codec decode_bytes)
qed

subsection \<open>CryptoService round trip\<close>

text \<open>
  C5 (as amended). For every password, and every plaintext that the UTF-8 encoding and
  decoding leave as it is (well-formed text that does not begin with U+FEFF, as the
  JSON text of the vault is): encrypting it under the key derived from the password
  with a fresh salt, then decrypting the ciphertext with the key derived again from the
  same password and the salt that \<open>deriveKey\<close> returned, using the nonce that
  \<open>encrypt\<close> returned, yields the plaintext, given that AES-GCM opens under this key
  and nonce what it sealed under them.
\<close>

theorem crypto_round_trip:
  assumes "gcm_decrypt P (derived P W fresh_salt) fresh_iv
             (gcm_encrypt P (derived P W fresh_salt) fresh_iv (text_encode P plaintext))
           = Some (text_encode P plaintext)"
    and "text_decode P (text_encode P plaintext) = plaintext"
    and "(key, saltBytes) = deriveKey P fresh_salt W None"
    and "(ciphertext, nonce) = encrypt P fresh_iv plaintext key"
    and "(key', saltBytes') = deriveKey P unused W (Some saltBytes)"
  shows "decrypt P ciphertext key' nonce = Some plaintext"
  using assms by (simp add: deriveKey_def encrypt_def decrypt_def derived_def Let_def)

theorem crypto_round_trip_witness:
  "text_decode demo_platform (text_encode demo_platform ''sk-test'') = ''sk-test''
   \<and> decrypt demo_platform
       (fst (encrypt demo_platform [3, 4] ''sk-test''
               (fst (deriveKey demo_platform [1, 2] ''correct-horse-battery'' None))))
       (fst (deriveKey demo_platform [] ''correct-horse-battery''
               (Some (snd (deriveKey demo_platform [1, 2] ''correct-horse-battery'' None)))))
       (snd (encrypt demo_platform [3, 4] ''sk-test''
               (fst (deriveKey demo_platform [1, 2] ''correct-horse-battery'' None))))
     = Some ''sk-test''"
  using crypto_round_trip
    [where P = demo_platform and W = "''correct-horse-battery''" and fresh_salt = "[1, 2]"
       and fresh_iv = "[3, 4]" and plaintext = "''sk-test''" and unused = "[]"
       and key = "fst (deriveKey demo_platform [1, 2] ''correct-horse-battery'' None)"
       and saltBytes = "snd (deriveKey demo_platform [1, 2] ''correct-horse-battery'' None)"
       and ciphertext = "fst (encrypt demo_platform [3, 4] ''sk-test''
               (fst (deriveKey demo_platform [1, 2] ''correct-horse-battery'' None)))"
       and nonce = "snd (encrypt demo_platform [3, 4] ''sk-test''
               (fst (deriveKey demo_platform [1, 2] ''correct-horse-battery'' None)))"
       and key' = "fst (deriveKey demo_platform [] ''correct-horse-battery''
               (Some (snd (deriveKey demo_platform [1, 2] ''correct-horse-battery'' None))))"
       and saltBytes' = "snd (deriveKey demo_platform [] ''correct-horse-battery''
               (Some (snd (deriveKey demo_platform [1, 2] ''correct-horse-battery'' None))))"]
    demo_gcm_opens demo_text_round_trip
  by simp

text \<open>
  C5 as stated holds for all plaintexts. On a platform whose decoder drops a leading
  byte order mark, as \<^verbatim>\<open>new TextDecoder()\<close> does, the plaintext made of U+FEFF
  and \<^verbatim>\<open>[]\<close> comes back from encrypt and decrypt as \<^verbatim>\<open>[]\<close>.
\<close>

theorem crypto_round_trip_drops_byte_order_mark:
  "decrypt web_platform
       (fst (encrypt web_platform [3, 4] bom_text
               (fst (deriveKey web_platform [1, 2] ''correct-horse-battery'' None))))
       (fst (deriveKey web_platform [] ''correct-horse-battery''
               (Some (snd (deriveKey web_platform [1, 2] ''correct-horse-battery'' None)))))
       (snd (encrypt web_platform [3, 4] bom_text
               (fst (deriveKey web_platform [1, 2] ''correct-horse-battery'' None))))
     = Some ''[]''
   \<and> bom_text \<noteq> ''[]''"
proof -
  have "strip_bom (map of_char bom_text) = map of_char ''[]''"
    unfolding bom_text_def map_append bom_bytes by (rule strip_bom_mark)
  then have d: "text_decode web_platform (text_encode web_platform bom_text) = ''[]''"
    by (simp only: web_text_codec decode_bytes)
  have g: "\<And>k n m. gcm_decrypt web_platform k n (gcm_encrypt web_platform k n m) = Some m"
    by (simp add: web_fields demo_gcm_opens)
  have "bom_text \<noteq> ''[]''" by (simp add: bom_text_def)
  then show ?thesis
    using d by (simp add: decrypt_def encrypt_def deriveKey_def Let_def g)
qed

subsection \<open>The vault record and its single write\<close>

lemma getVault_frame:
  "local_storage (snd (getVault w)) = local_storage w"
  "writes (snd (getVault w)) = writes w"
  "buffers (snd (getVault w)) = buffers w"
  "decryptedKeys (snd (getVault w)) = decryptedKeys w"
  "encryptionKey (snd (getVault w)) = encryptionKey w"
  by (simp_all add: getVault_def split_def Let_def getAll_frame)

lemma getVault_idem: "fst (getVault (snd (getVault w))) = fst (getVault w)"
  by (simp add: getVault_def split_def Let_def getAll_idem)

lemma getVault_vault_fields:
  "fst (getVault (w\<lparr>decryptedKeys := x\<rparr>)) = fst (getVault w)"
  "fst (getVault (w\<lparr>encryptionKey := y\<rparr>)) = fst (getVault w)"
  "fst (getVault (w\<lparr>buffers := z\<rparr>)) = fst (getVault w)"
  by (cases "cache w"; simp add: getVault_def getAll_def Let_def)+

lemma storage_saveVault_effect:
  "cl_vault (local_storage (storage_saveVault v w)) = Some v"
  "writes (storage_saveVault v w) = writes w @ [SetVault v]"
  "vault_writes (storage_saveVault v w) = vault_writes w @ [v]"
  "fst (getVault (storage_saveVault v w)) = Some v"
  "buffers (storage_saveVault v w) = buffers w"
  "decryptedKeys (storage_saveVault v w) = decryptedKeys w"
  "encryptionKey (storage_saveVault v w) = encryptionKey w"
  by (cases "cache w"; simp add: storage_saveVault_def vault_writes_def getVault_def getAll_def Let_def)+

lemma try_open_rejected:
  assumes "encrypted v = toBase64 P (gcm_encrypt P (derived P W s) n m)"
    and "salt v = toBase64 P s"
    and "iv v = toBase64 P n"
    and "fromBase64 P (toBase64 P s) = Some s"
    and "fromBase64 P (toBase64 P n) = Some n"
    and "fromBase64 P (toBase64 P (gcm_encrypt P (derived P W s) n m))
           = Some (gcm_encrypt P (derived P W s) n m)"
    and "gcm_decrypt P (derived P W' s) n (gcm_encrypt P (derived P W s) n m) = None"
  shows "try_open P W' v = None"
  using assms
  by (simp add: try_open_def deriveKey_def derived_def decrypt_def Let_def)

lemma try_open_right_password:
  assumes "gcm_decrypt P (derived P W s) n
             (gcm_encrypt P (derived P W s) n (text_encode P (json_stringify P keys)))
           = Some (text_encode P (json_stringify P keys))"
    and "text_decode P (text_encode P (json_stringify P keys)) = json_stringify P keys"
    and "json_parse P (json_stringify P keys) = Some keys"
    and "fromBase64 P (toBase64 P s) = Some s"
    and "fromBase64 P (toBase64 P n) = Some n"
    and "fromBase64 P (toBase64 P (gcm_encrypt P (derived P W s) n
             (text_encode P (json_stringify P keys))))
           = Some (gcm_encrypt P (derived P W s) n (text_encode P (json_stringify P keys)))"
  shows "try_open P W (sealed_vault P (derived P W s) s n t1 t2 keys) = Some (derived P W s, keys)"
  using assms
  by (simp add: try_open_def sealed_vault_def deriveKey_def derived_def decrypt_def Let_def)

lemma unlock_cases:
  "fst (getVault w) = Some v \<Longrightarrow> try_open P password v = None \<Longrightarrow>
     unlock P password w = (Inr False, snd (getVault w))"
  "fst (getVault w) = Some v \<Longrightarrow> try_open P password v = Some (key, keys) \<Longrightarrow>
     unlock P password w = (Inr True, (hold_key key (snd (getVault w)))\<lparr>decryptedKeys := Some keys\<rparr>)"
  "fst (getVault w) = None \<Longrightarrow> unlock P password w = (Inl ''Vault does not exist'', snd (getVault w))"
  by (simp_all add: unlock_def split_def Let_def)

lemma unlock_true_iff:
  "fst (unlock P password w) = Inr True \<longleftrightarrow>
     (\<exists>v key keys. fst (getVault w) = Some v \<and> try_open P password v = Some (key, keys))"
  by (auto simp add: unlock_def split_def Let_def split: option.splits)










lemma create_effect:
  assumes "fst (create P fs n t1 t2 pw w) = Inr ()"
  shows "writes_vault_once P w (snd (create P fs n t1 t2 pw w)) (derived P pw fs) (toBase64 P fs) n"
    and "cl_vault (local_storage (snd (create P fs n t1 t2 pw w)))
           = Some (sealed_vault P (derived P pw fs) fs n t1 t2 [])"
    and "decryptedKeys (snd (create P fs n t1 t2 pw w)) = Some []"
    and "encryptionKey (snd (create P fs n t1 t2 pw w)) = Some (length (buffers w))"
    and "buffers (snd (create P fs n t1 t2 pw w)) = buffers w @ [derived P pw fs]"
    and "fst (getVault (snd (create P fs n t1 t2 pw w)))
           = Some (sealed_vault P (derived P pw fs) fs n t1 t2 [])"
proof -
  have nv: "fst (getVault w) = None"
    using assms
    by (auto simp add: create_def vault_exists_def hasVault_def split_def Let_def split: if_splits)
  have vw: "vault_writes (snd (getVault w)) = vault_writes w"
    by (simp add: vault_writes_def getVault_frame)
  show "writes_vault_once P w (snd (create P fs n t1 t2 pw w)) (derived P pw fs) (toBase64 P fs) n"
    using nv vw
    by (simp add: create_def vault_exists_def hasVault_def split_def Let_def deriveKey_def
          encrypt_def derived_def writes_vault_once_def storage_saveVault_effect hold_key_def
          vault_writes_def getVault_vault_fields)
  show "cl_vault (local_storage (snd (create P fs n t1 t2 pw w)))
           = Some (sealed_vault P (derived P pw fs) fs n t1 t2 [])"
    using nv
    by (simp add: create_def vault_exists_def hasVault_def split_def Let_def deriveKey_def
          encrypt_def derived_def sealed_vault_def storage_saveVault_effect hold_key_def)
  show "decryptedKeys (snd (create P fs n t1 t2 pw w)) = Some []"
    using nv by (simp add: create_def vault_exists_def hasVault_def split_def Let_def)
  show "encryptionKey (snd (create P fs n t1 t2 pw w)) = Some (length (buffers w))"
    using nv
    by (simp add: create_def vault_exists_def hasVault_def split_def Let_def hold_key_def
          storage_saveVault_effect getVault_frame)
  show "buffers (snd (create P fs n t1 t2 pw w)) = buffers w @ [derived P pw fs]"
    using nv
    by (simp add: create_def vault_exists_def hasVault_def split_def Let_def hold_key_def
          storage_saveVault_effect getVault_frame deriveKey_def derived_def)
  show "fst (getVault (snd (create P fs n t1 t2 pw w)))
           = Some (sealed_vault P (derived P pw fs) fs n t1 t2 [])"
    using nv
    by (simp add: create_def vault_exists_def hasVault_def split_def Let_def deriveKey_def
          encrypt_def derived_def sealed_vault_def storage_saveVault_effect hold_key_def
          getVault_vault_fields)
qed

lemma create_ok: "fst (getVault w) = None \<Longrightarrow> fst (create P fs n t1 t2 pw w) = Inr ()"
  by (simp add: create_def vault_exists_def hasVault_def split_def Let_def)

lemma lock_getVault: "fst (getVault (lock w)) = fst (getVault w)"
  by (simp add: lock_def zero_buffer_def Let_def getVault_vault_fields split: option.splits)






subsection \<open>Key references stay valid\<close>

text \<open>
  The initial state holds no key reference, and the operations of the vault and the
  auto-lock handler keep the reference valid, which is what the statement about
  zeroization in \<open>lock\<close> asks of the state.
\<close>

lemma key_ref_valid_cong:
  "encryptionKey w' = encryptionKey w \<Longrightarrow> buffers w' = buffers w \<Longrightarrow>
   key_ref_valid w' = key_ref_valid w"
  by (simp add: key_ref_valid_def split: option.splits)

lemma key_ref_valid_initial: "key_ref_valid initial_world"
  by (simp add: key_ref_valid_def initial_world_def)

lemma key_ref_valid_hold_key: "key_ref_valid ((hold_key key w)\<lparr>decryptedKeys := x\<rparr>)"
  by (simp add: key_ref_valid_def hold_key_def)

lemma key_ref_valid_lock: "key_ref_valid (lock w)"
  by (simp add: key_ref_valid_def lock_fields)

lemma key_ref_valid_getVault: "key_ref_valid (snd (getVault w)) = key_ref_valid w"
  by (rule key_ref_valid_cong) (simp_all add: getVault_frame)

lemma key_ref_valid_create:
  assumes "key_ref_valid w"
  shows "key_ref_valid (snd (create P fs n t1 t2 pw w))"
proof (cases "fst (getVault w)")
  case None
  then show ?thesis
    by (simp add: create_def vault_exists_def hasVault_def split_def Let_def
          key_ref_valid_hold_key)
next
  case (Some v)
  then show ?thesis
    using assms
    by (simp add: create_def vault_exists_def hasVault_def split_def Let_def
          key_ref_valid_getVault)
qed

lemma key_ref_valid_unlock:
  assumes "key_ref_valid w"
  shows "key_ref_valid (snd (unlock P pw w))"
proof (cases "fst (getVault w)")
  case None
  then show ?thesis using assms by (simp add: unlock_cases key_ref_valid_getVault)
next
  case (Some v)
  then show ?thesis
    using assms
    by (cases "try_open P pw v")
       (auto simp add: unlock_cases key_ref_valid_getVault key_ref_valid_hold_key)
qed

lemma key_ref_valid_changePassword:
  assumes "key_ref_valid w"
  shows "key_ref_valid (snd (changePassword P fs n t old new w))"
proof (cases "fst (getVault w)")
  case None
  then show ?thesis
    using assms by (simp add: changePassword_def split_def Let_def key_ref_valid_getVault)
next
  case (Some v)
  then show ?thesis
    using assms
    by (cases "try_open P old v")
       (auto simp add: changePassword_def split_def Let_def key_ref_valid_getVault
          key_ref_valid_hold_key)
qed

lemma vault_saveVault_key_frame:
  "encryptionKey (snd (vault_saveVault P n t w)) = encryptionKey w"
  "buffers (snd (vault_saveVault P n t w)) = buffers w"
  by (auto simp add: vault_saveVault_def split_def Let_def getVault_frame storage_saveVault_effect
      split: option.splits)

lemma saveCustomEndpoint_key_frame:
  "encryptionKey (saveCustomEndpoint i u w) = encryptionKey w"
  "buffers (saveCustomEndpoint i u w) = buffers w"
  by (simp_all add: saveCustomEndpoint_def getCustomEndpoints_def split_def Let_def getAll_frame)

lemma addKey_key_frame:
  "encryptionKey (snd (addKey P n uuid t1 t2 t3 prov name secret url w)) = encryptionKey w"
  "buffers (snd (addKey P n uuid t1 t2 t3 prov name secret url w)) = buffers w"
  by (auto simp add: addKey_def split_def Let_def vault_saveVault_key_frame
        saveCustomEndpoint_key_frame split: sum.splits)

lemma updateKey_key_frame:
  "encryptionKey (snd (updateKey P n t1 t2 i updates w)) = encryptionKey w"
  "buffers (snd (updateKey P n t1 t2 i updates w)) = buffers w"
  by (auto simp add: updateKey_def split_def Let_def vault_saveVault_key_frame
        saveCustomEndpoint_key_frame split: sum.splits option.splits)

lemma deleteKey_key_frame:
  "encryptionKey (snd (deleteKey P n t i w)) = encryptionKey w"
  "buffers (snd (deleteKey P n t i w)) = buffers w"
  by (auto simp add: deleteKey_def split_def Let_def vault_saveVault_key_frame
      split: sum.splits option.splits)

lemma key_ref_valid_key_mutations:
  "key_ref_valid (snd (addKey P n uuid t1 t2 t3 prov name secret url w)) = key_ref_valid w"
  "key_ref_valid (snd (updateKey P n t1 t2 i updates w)) = key_ref_valid w"
  "key_ref_valid (snd (deleteKey P n t i w)) = key_ref_valid w"
  by (rule key_ref_valid_cong; simp add: addKey_key_frame updateKey_key_frame deleteKey_key_frame)+

lemma key_ref_valid_handleAutoLock:
  assumes "key_ref_valid w"
  shows "key_ref_valid (handleAutoLock now w)"
proof -
  have g: "key_ref_valid (snd (getSettings w))"
    using assms key_ref_valid_cong [of "snd (getSettings w)" w] by (simp add: getSettings_frame)
  have a: "\<And>x. key_ref_valid (snd (getSettings w)\<lparr>alarm := x\<rparr>)"
    using g key_ref_valid_cong [of "snd (getSettings w)\<lparr>alarm := _\<rparr>" "snd (getSettings w)"]
    by simp
  have l: "\<And>x. key_ref_valid (lock (snd (getSettings w))\<lparr>runtime_messages := x\<rparr>)"
    using key_ref_valid_lock [of "snd (getSettings w)"]
      key_ref_valid_cong [of "lock (snd (getSettings w))\<lparr>runtime_messages := _\<rparr>"
        "lock (snd (getSettings w))"]
    by simp
  show ?thesis
    using g a l by (simp add: handleAutoLock_def split_def Let_def)
qed

subsection \<open>The scenario: create, then lock\<close>

lemma initial_no_vault: "fst (getVault initial_world) = None"
  by (simp add: initial_world_def getVault_def getAll_def Let_def)

lemma world_created_ok:
  "fst (create demo_platform [1, 2] [3, 4] 100 100 ''correct-horse-battery'' initial_world) = Inr ()"
  by (rule create_ok [OF initial_no_vault])

lemma world_locked_facts:
  "fst (getVault world_locked) =
     Some (sealed_vault demo_platform (derived demo_platform ''correct-horse-battery'' [1, 2])
             [1, 2] [3, 4] 100 100 [])"
  "decryptedKeys world_locked = None"
  "encryptionKey world_locked = None"
  by (simp_all add: world_locked_def world_created_def lock_getVault lock_fields
        create_effect [OF world_created_ok])

lemma world_locked_unlock:
  "fst (unlock demo_platform ''correct-horse-battery'' world_locked) = Inr True"
proof -
  have "try_open demo_platform ''correct-horse-battery''
          (sealed_vault demo_platform (derived demo_platform ''correct-horse-battery'' [1, 2])
             [1, 2] [3, 4] 100 100 [])
        = Some (derived demo_platform ''correct-horse-battery'' [1, 2], [])"
    by (rule try_open_right_password)
       (simp_all add: demo_gcm_opens demo_text_round_trip demo_base64_round_trip,
        simp add: demo_platform_def)
  then show ?thesis
    using world_locked_facts(1) by (simp add: unlock_cases)
qed


subsection \<open>Wrong password\<close>

lemma world_locked_web_facts:
  "fst (getVault world_locked_web) =
     Some (sealed_vault web_platform (derived web_platform ''correct-horse-battery'' [1, 2])
             [1, 2] [3, 4] 100 100 [])"
  "decryptedKeys world_locked_web = None"
  "encryptionKey world_locked_web = None"
  by (simp_all add: world_locked_web_def lock_getVault lock_fields
        create_effect [OF create_ok [OF initial_no_vault]])

text \<open>
  C3 as stated holds for every password different from the master password. On a
  platform whose key derivation pads the password as HMAC does, a vault created with
  \<^verbatim>\<open>correct-horse-battery\<close> and then locked is unlocked by that password followed
  by a NUL character: the two passwords derive the same key.
\<close>

theorem unlock_accepts_padded_password:
  "''correct-horse-battery'' @ [CHR 0x00] \<noteq> ''correct-horse-battery''
   \<and> fst (getVault world_locked_web) \<noteq> None
   \<and> \<not> isUnlocked world_locked_web
   \<and> fst (unlock web_platform ''correct-horse-battery'' world_locked_web) = Inr True
   \<and> fst (unlock web_platform (''correct-horse-battery'' @ [CHR 0x00]) world_locked_web)
       = Inr True
   \<and> isUnlocked (snd (unlock web_platform (''correct-horse-battery'' @ [CHR 0x00])
                         world_locked_web))"
proof -
  let ?k = "derived web_platform ''correct-horse-battery'' [1, 2]"
  let ?v = "sealed_vault web_platform ?k [1, 2] [3, 4] 100 100 []"
  have o: "try_open web_platform ''correct-horse-battery'' ?v = Some (?k, [])"
    by (rule try_open_right_password)
       (simp_all add: web_text_empty_list,
        simp_all add: web_fields demo_gcm_opens demo_base64_round_trip,
        simp add: demo_platform_def)
  have "try_open web_platform (''correct-horse-battery'' @ [CHR 0x00])
          (sealed_vault web_platform
             (derived web_platform (''correct-horse-battery'' @ [CHR 0x00]) [1, 2])
             [1, 2] [3, 4] 100 100 [])
        = Some (derived web_platform (''correct-horse-battery'' @ [CHR 0x00]) [1, 2], [])"
    by (rule try_open_right_password)
       (simp_all add: web_text_empty_list,
        simp_all add: web_fields demo_gcm_opens demo_base64_round_trip,
        simp add: demo_platform_def)
  then have p: "try_open web_platform (''correct-horse-battery'' @ [CHR 0x00]) ?v = Some (?k, [])"
    by (simp only: web_same_key)
  show ?thesis
    using o p world_locked_web_facts
    by (simp add: unlock_cases isUnlocked_def hold_key_def)
qed

text \<open>
  C3 (as amended). For a stored vault sealed under the key derived from password
  \<open>W\<close>, and every password whose derived key fails the tag check of AES-GCM on the
  stored ciphertext, \<open>unlock\<close> returns false without throwing and retains nothing:
  the held key, the credential list and the key buffers are what they were, so a Locked
  vault stays Locked, with no derived key and no credential list in memory. Base64
  decoding inverts the encoding of the stored fields.
\<close>

theorem unlock_authentication_failed:
  assumes "fst (getVault w) = Some v"
    and "encrypted v = toBase64 P (gcm_encrypt P (derived P W s) n m)"
    and "salt v = toBase64 P s"
    and "iv v = toBase64 P n"
    and "fromBase64 P (toBase64 P s) = Some s"
    and "fromBase64 P (toBase64 P n) = Some n"
    and "fromBase64 P (toBase64 P (gcm_encrypt P (derived P W s) n m))
           = Some (gcm_encrypt P (derived P W s) n m)"
    and "gcm_decrypt P (derived P W' s) n (gcm_encrypt P (derived P W s) n m) = None"
  shows "fst (unlock P W' w) = Inr False
       \<and> decryptedKeys (snd (unlock P W' w)) = decryptedKeys w
       \<and> encryptionKey (snd (unlock P W' w)) = encryptionKey w
       \<and> buffers (snd (unlock P W' w)) = buffers w
       \<and> (\<not> isUnlocked w \<longrightarrow> \<not> isUnlocked (snd (unlock P W' w)))
       \<and> (decryptedKeys w = None \<and> encryptionKey w = None \<longrightarrow>
            decryptedKeys (snd (unlock P W' w)) = None
            \<and> encryptionKey (snd (unlock P W' w)) = None)"
proof -
  have "try_open P W' v = None"
    using assms(2-8) by (rule try_open_rejected)
  then have "unlock P W' w = (Inr False, snd (getVault w))"
    using assms(1) by (simp add: unlock_cases)
  then show ?thesis
    by (simp add: getVault_frame isUnlocked_def)
qed

theorem unlock_authentication_failed_witness:
  "gcm_decrypt demo_platform (derived demo_platform ''wrong'' [1, 2]) [3, 4]
     (gcm_encrypt demo_platform (derived demo_platform ''correct-horse-battery'' [1, 2]) [3, 4]
        (text_encode demo_platform (json_stringify demo_platform []))) = None
   \<and> fst (getVault world_locked) \<noteq> None
   \<and> decryptedKeys world_locked = None \<and> encryptionKey world_locked = None
   \<and> fst (unlock demo_platform ''correct-horse-battery'' world_locked) = Inr True
   \<and> fst (unlock demo_platform ''wrong'' world_locked) = Inr False
   \<and> \<not> isUnlocked (snd (unlock demo_platform ''wrong'' world_locked))
   \<and> decryptedKeys (snd (unlock demo_platform ''wrong'' world_locked)) = None
   \<and> encryptionKey (snd (unlock demo_platform ''wrong'' world_locked)) = None"
proof -
  have k: "derived demo_platform ''correct-horse-battery'' [1, 2]
             \<noteq> derived demo_platform ''wrong'' [1, 2]"
    by (rule demo_kdf_injective) simp
  have r: "gcm_decrypt demo_platform (derived demo_platform ''wrong'' [1, 2]) [3, 4]
     (gcm_encrypt demo_platform (derived demo_platform ''correct-horse-battery'' [1, 2]) [3, 4]
        (text_encode demo_platform (json_stringify demo_platform []))) = None"
    using k by (rule demo_gcm_rejects)
  show ?thesis
    using unlock_authentication_failed
      [where P = demo_platform and w = world_locked and W = "''correct-horse-battery''"
         and W' = "''wrong''" and s = "[1, 2]" and n = "[3, 4]"
         and m = "text_encode demo_platform (json_stringify demo_platform [])"
         and v = "sealed_vault demo_platform
                    (derived demo_platform ''correct-horse-battery'' [1, 2])
                    [1, 2] [3, 4] 100 100 []"]
      r world_locked_facts world_locked_unlock
    by (simp add: sealed_vault_def demo_base64_round_trip isUnlocked_def)
qed

subsection \<open>Changing the password from the Locked state\<close>

text \<open>
  C10. \<open>changePassword\<close> does not ask for an unlocked vault: from the Locked state,
  with an old password that \<open>unlock\<close> would accept, it returns true and leaves the
  vault Unlocked, holding the credential list that \<open>unlock\<close> would have loaded and,
  in a new buffer, the key derived from the new password and the fresh salt.
\<close>

theorem changePassword_from_locked:
  assumes "decryptedKeys w = None"
    and "encryptionKey w = None"
    and "fst (unlock P oldPassword w) = Inr True"
    and "w' = snd (changePassword P fresh_salt fresh_iv now oldPassword newPassword w)"
  shows "fst (changePassword P fresh_salt fresh_iv now oldPassword newPassword w) = True
       \<and> isUnlocked w'
       \<and> decryptedKeys w' = decryptedKeys (snd (unlock P oldPassword w))
       \<and> encryptionKey w' = Some (length (buffers w))
       \<and> buffers w' = buffers w @ [derived P newPassword fresh_salt]
       \<and> buffers w' ! length (buffers w) = derived P newPassword fresh_salt"
proof -
  obtain v key keys where v: "fst (getVault w) = Some v"
    and t: "try_open P oldPassword v = Some (key, keys)"
    using assms(3) unlock_true_iff by blast
  have u: "decryptedKeys (snd (unlock P oldPassword w)) = Some keys"
    using v t by (simp add: unlock_cases hold_key_def)
  have e: "encryptionKey (snd (getVault w)) = None" "buffers (snd (getVault w)) = buffers w"
    using assms(2) by (simp_all add: getVault_frame)
  show ?thesis
    using v t u e assms(4)
    by (simp add: changePassword_def split_def Let_def deriveKey_def encrypt_def derived_def
          storage_saveVault_effect hold_key_def isUnlocked_def)
qed

theorem changePassword_from_locked_witness:
  "decryptedKeys world_locked = None \<and> encryptionKey world_locked = None
   \<and> \<not> isUnlocked world_locked
   \<and> fst (unlock demo_platform ''correct-horse-battery'' world_locked) = Inr True
   \<and> fst (changePassword demo_platform [5, 6] [7, 8] 200 ''correct-horse-battery''
            ''new-password'' world_locked) = True
   \<and> isUnlocked (snd (changePassword demo_platform [5, 6] [7, 8] 200 ''correct-horse-battery''
            ''new-password'' world_locked))"
  using changePassword_from_locked
    [where P = demo_platform and w = world_locked and oldPassword = "''correct-horse-battery''"
       and newPassword = "''new-password''" and fresh_salt = "[5, 6]" and fresh_iv = "[7, 8]"
       and now = 200
       and w' = "snd (changePassword demo_platform [5, 6] [7, 8] 200 ''correct-horse-battery''
            ''new-password'' world_locked)"]
    world_locked_facts world_locked_unlock
  by (auto simp add: isUnlocked_def)

subsection \<open>Every mutation writes ciphertext, salt and nonce in one record\<close>



end
